theory Spec2Isabelle
  imports Complex_Main "HOL-Library.Sublist"
begin

section \<open>Python values\<close>

text \<open>
  The server handles loosely typed data: the argument bag of a tool call and the bodies
  of the upstream replies are whatever \<^verbatim>\<open>json.loads\<close> produces. The model keeps
  them as they are, one constructor per Python type that JSON decoding yields.
  A Python \<^verbatim>\<open>str\<close> is modelled by its UTF-8 bytes, a \<^verbatim>\<open>dict\<close> by its items in
  insertion order (keys of a decoded object are distinct), an \<^verbatim>\<open>int\<close> by an unbounded
  integer and a finite \<^verbatim>\<open>float\<close> by the rational number it denotes (the signed zero,
  infinities and NaN are outside the model).
\<close>

datatype json =
    JNull
  | JBool bool
  | JInt int
  | JFloat rat
  | JStr string
  | JArr "json list"
  | JObj "(string \<times> json) list"

datatype exc_class =
  Exception | ValueError | TypeError | AttributeError | KeyError | IndexError | HTTPError

text \<open>An exception is its class and the text that \<^verbatim>\<open>str(e)\<close> returns.\<close>

datatype exc = Exc exc_class string

fun exc_kind :: "exc \<Rightarrow> exc_class" where
  "exc_kind (Exc c m) = c"

fun str_exc :: "exc \<Rightarrow> string" where
  "str_exc (Exc c m) = m"

definition quoted :: "string \<Rightarrow> string" where
  "quoted s = CHR 0x27 # s @ [CHR 0x27]"

fun type_name :: "json \<Rightarrow> string" where
  "type_name JNull = ''NoneType''"
| "type_name (JBool b) = ''bool''"
| "type_name (JInt i) = ''int''"
| "type_name (JFloat r) = ''float''"
| "type_name (JStr s) = ''str''"
| "type_name (JArr xs) = ''list''"
| "type_name (JObj kvs) = ''dict''"

text \<open>Truth value testing (\<^verbatim>\<open>if x\<close>, \<^verbatim>\<open>not x\<close>, \<^verbatim>\<open>x or y\<close>).\<close>

fun truthy :: "json \<Rightarrow> bool" where
  "truthy JNull = False"
| "truthy (JBool b) = b"
| "truthy (JInt i) = (i \<noteq> 0)"
| "truthy (JFloat r) = (r \<noteq> 0)"
| "truthy (JStr s) = (s \<noteq> [])"
| "truthy (JArr xs) = (xs \<noteq> [])"
| "truthy (JObj kvs) = (kvs \<noteq> [])"

definition py_or :: "json \<Rightarrow> json \<Rightarrow> json" where
  "py_or a b = (if truthy a then a else b)"

fun isinstance_list :: "json \<Rightarrow> bool" where
  "isinstance_list (JArr xs) = True"
| "isinstance_list v = False"

subsection \<open>Computations that may raise\<close>

definition bindE :: "exc + 'a \<Rightarrow> ('a \<Rightarrow> exc + 'b) \<Rightarrow> exc + 'b" where
  "bindE m f = (case m of Inl e \<Rightarrow> Inl e | Inr x \<Rightarrow> f x)"

text \<open>A \<^verbatim>\<open>for\<close> loop that appends one value per element; the first exception ends it.\<close>

fun map_exc :: "('a \<Rightarrow> exc + 'b) \<Rightarrow> 'a list \<Rightarrow> exc + 'b list" where
  "map_exc f [] = Inr []"
| "map_exc f (x # xs) = bindE (f x) (\<lambda>y. bindE (map_exc f xs) (\<lambda>ys. Inr (y # ys)))"

subsection \<open>Attribute access, subscripts, slices, iteration\<close>

definition no_attribute_get :: "json \<Rightarrow> exc" where
  "no_attribute_get v =
     Exc AttributeError (quoted (type_name v) @ '' object has no attribute 'get'' @ [CHR 0x27])"

definition not_subscriptable :: "json \<Rightarrow> exc" where
  "not_subscriptable v = Exc TypeError (quoted (type_name v) @ '' object is not subscriptable'')"

definition not_iterable :: "json \<Rightarrow> exc" where
  "not_iterable v = Exc TypeError (quoted (type_name v) @ '' object is not iterable'')"

definition unhashable :: "json \<Rightarrow> exc" where
  "unhashable v = Exc TypeError (''unhashable type: '' @ quoted (type_name v))"

text \<open>\<^verbatim>\<open>v.get(k, d)\<close>: only a dict has the method.\<close>

definition dict_get :: "(string \<times> json) list \<Rightarrow> string \<Rightarrow> json \<Rightarrow> json" where
  "dict_get kvs k d = (case map_of kvs k of Some v \<Rightarrow> v | None \<Rightarrow> d)"

fun py_get :: "json \<Rightarrow> string \<Rightarrow> json \<Rightarrow> exc + json" where
  "py_get (JObj kvs) k d = Inr (dict_get kvs k d)"
| "py_get v k d = Inl (no_attribute_get v)"

text \<open>
  The value \<^verbatim>\<open>r.get(k)\<close> of a record \<^verbatim>\<open>r\<close> that is a dict, \<^verbatim>\<open>None\<close> when the key is
  absent. It is used to state what the records built by the operations contain.
\<close>

fun field :: "json \<Rightarrow> string \<Rightarrow> json" where
  "field (JObj kvs) k = dict_get kvs k JNull"
| "field v k = JNull"

text \<open>\<^verbatim>\<open>isinstance(v, dict)\<close>, for the lemmas about the records the operations build.\<close>

fun is_dict :: "json \<Rightarrow> bool" where
  "is_dict (JObj kvs) = True"
| "is_dict v = False"

text \<open>The code points of a string, each as its UTF-8 bytes.\<close>

definition is_cont :: "char \<Rightarrow> bool" where
  "is_cont c = (128 \<le> (of_char c :: nat) \<and> (of_char c :: nat) < 192)"

function utf8_chars :: "string \<Rightarrow> string list" where
  "utf8_chars [] = []"
| "utf8_chars (c # cs) = (c # takeWhile is_cont cs) # utf8_chars (dropWhile is_cont cs)"
  by pat_completeness auto
termination
  by (relation "measure length") (auto simp: le_imp_less_Suc length_dropWhile_le)

text \<open>
  \<^verbatim>\<open>xs[:stop]\<close>. The stop of a slice is \<^verbatim>\<open>None\<close> or an integer (\<^verbatim>\<open>bool\<close> is a subclass
  of \<^verbatim>\<open>int\<close>); a negative stop counts from the end.
\<close>

fun slice_stop :: "json \<Rightarrow> exc + int option" where
  "slice_stop JNull = Inr None"
| "slice_stop (JInt k) = Inr (Some k)"
| "slice_stop (JBool b) = Inr (Some (if b then 1 else 0))"
| "slice_stop v =
     Inl (Exc TypeError ''slice indices must be integers or None or have an __index__ method'')"

definition slice_upto :: "'a list \<Rightarrow> int option \<Rightarrow> 'a list" where
  "slice_upto xs stop =
     (case stop of
        None \<Rightarrow> xs
      | Some k \<Rightarrow> if k < 0 then take (nat (int (length xs) + k)) xs else take (nat k) xs)"

fun py_slice_to :: "json \<Rightarrow> json \<Rightarrow> exc + json" where
  "py_slice_to (JArr xs) stop = bindE (slice_stop stop) (\<lambda>k. Inr (JArr (slice_upto xs k)))"
| "py_slice_to (JStr s) stop =
     bindE (slice_stop stop) (\<lambda>k. Inr (JStr (concat (slice_upto (utf8_chars s) k))))"
| "py_slice_to (JObj kvs) stop = Inl (Exc TypeError (''unhashable type: '' @ quoted ''slice''))"
| "py_slice_to v stop = Inl (not_subscriptable v)"

text \<open>\<^verbatim>\<open>for item in v\<close>: the elements of a list, the characters of a string, the keys of a dict.\<close>

fun py_iter :: "json \<Rightarrow> exc + json list" where
  "py_iter (JArr xs) = Inr xs"
| "py_iter (JStr s) = Inr (map JStr (utf8_chars s))"
| "py_iter (JObj kvs) = Inr (map (\<lambda>kv. JStr (fst kv)) kvs)"
| "py_iter v = Inl (not_iterable v)"

text \<open>\<^verbatim>\<open>v[0]\<close>: an empty sequence raises \<^verbatim>\<open>IndexError\<close>; a decoded dict has no key \<^verbatim>\<open>0\<close>.\<close>

fun py_index0 :: "json \<Rightarrow> exc + json" where
  "py_index0 (JArr []) = Inl (Exc IndexError ''list index out of range'')"
| "py_index0 (JArr (x # xs)) = Inr x"
| "py_index0 (JStr s) =
     (case utf8_chars s of
        [] \<Rightarrow> Inl (Exc IndexError ''string index out of range'')
      | c # cs \<Rightarrow> Inr (JStr c))"
| "py_index0 (JObj kvs) = Inl (Exc KeyError ''0'')"
| "py_index0 v = Inl (not_subscriptable v)"

subsection \<open>Dictionaries keyed by values\<close>

text \<open>
  A key must be hashable; \<^verbatim>\<open>True == 1 == 1.0\<close> are one key. A dict built by a
  comprehension is kept as the list of its insertions, a later one replacing an earlier
  one with an equal key.
\<close>

fun hashable :: "json \<Rightarrow> bool" where
  "hashable (JArr xs) = False"
| "hashable (JObj kvs) = False"
| "hashable v = True"

fun key_norm :: "json \<Rightarrow> json" where
  "key_norm (JBool b) = JInt (if b then 1 else 0)"
| "key_norm (JFloat r) = (if of_int \<lfloor>r\<rfloor> = r then JInt \<lfloor>r\<rfloor> else JFloat r)"
| "key_norm v = v"

definition py_hash :: "json \<Rightarrow> exc + json" where
  "py_hash k = (if hashable k then Inr (key_norm k) else Inl (unhashable k))"

definition dict_lookup :: "(json \<times> json) list \<Rightarrow> json \<Rightarrow> json \<Rightarrow> exc + json" where
  "dict_lookup d k dflt =
     bindE (py_hash k) (\<lambda>k'. Inr (case map_of (rev d) k' of Some v \<Rightarrow> v | None \<Rightarrow> dflt))"

section \<open>The upstream client\<close>

text \<open>
  Each operation opens an \<^verbatim>\<open>httpx.AsyncClient\<close>, sends one request, calls
  \<^verbatim>\<open>raise_for_status\<close> and decodes the body. The network is a parameter: given the
  requests sent so far and the request, it either raises or yields the decoded body.
  The state threaded through the program is the list of requests sent.
\<close>

record request =
  req_method :: string
  req_url :: string
  req_json :: "json option"
  req_headers :: "(string \<times> string) list"
  req_timeout :: nat

text \<open>
  The environment of the module: the credential read at import time, the network, and
  the two library functions whose output the server only passes on
  (\<^verbatim>\<open>json.dumps(v, indent=2)\<close> and the built-in \<^verbatim>\<open>str\<close> used by f-strings).
\<close>

record env =
  EXA_API_KEY :: string
  http :: "request list \<Rightarrow> request \<Rightarrow> exc + json"
  json_dumps :: "json \<Rightarrow> exc + string"
  py_str :: "json \<Rightarrow> string"

type_synonym 'a io = "request list \<Rightarrow> (exc + 'a) \<times> request list"

definition ret :: "'a \<Rightarrow> 'a io" where
  "ret x = (\<lambda>sent. (Inr x, sent))"

definition raise :: "exc \<Rightarrow> 'a io" where
  "raise e = (\<lambda>sent. (Inl e, sent))"

definition lift :: "exc + 'a \<Rightarrow> 'a io" where
  "lift r = (\<lambda>sent. (r, sent))"

definition bind :: "'a io \<Rightarrow> ('a \<Rightarrow> 'b io) \<Rightarrow> 'b io" where
  "bind m f = (\<lambda>sent. case m sent of (Inl e, sent') \<Rightarrow> (Inl e, sent') | (Inr x, sent') \<Rightarrow> f x sent')"

text \<open>\<^verbatim>\<open>try: m  except Exception: h\<close>\<close>

definition try_except :: "'a io \<Rightarrow> (exc \<Rightarrow> 'a io) \<Rightarrow> 'a io" where
  "try_except m h =
     (\<lambda>sent. case m sent of (Inl e, sent') \<Rightarrow> h e sent' | (Inr x, sent') \<Rightarrow> (Inr x, sent'))"

definition send :: "env \<Rightarrow> request \<Rightarrow> json io" where
  "send E r = (\<lambda>sent. (http E sent r, sent @ [r]))"

definition EXA_SEARCH_ENDPOINT :: string where
  "EXA_SEARCH_ENDPOINT = ''https://api.exa.ai/search''"

definition EXA_CONTENTS_ENDPOINT :: string where
  "EXA_CONTENTS_ENDPOINT = ''https://api.exa.ai/contents''"

definition EXA_FIND_SIMILAR_ENDPOINT :: string where
  "EXA_FIND_SIMILAR_ENDPOINT = ''https://api.exa.ai/findSimilar''"

definition EXA_ANSWER_ENDPOINT :: string where
  "EXA_ANSWER_ENDPOINT = ''https://api.exa.ai/answer''"

definition EXA_RESEARCH_TASKS_ENDPOINT :: string where
  "EXA_RESEARCH_TASKS_ENDPOINT = ''https://api.exa.ai/research/v0/tasks''"

definition credential_error :: exc where
  "credential_error = Exc Exception ''EXA_API_KEY environment variable is not set''"

definition no_content_error :: exc where
  "no_content_error = Exc Exception ''No content returned from Exa for the given URL''"

section \<open>Operation functions\<close>

definition api_key_header :: "env \<Rightarrow> (string \<times> string) list" where
  "api_key_header E = [(''x-api-key'', EXA_API_KEY E)]"

text \<open>
  \<^verbatim>\<open>{"title": item.get("title"), "url": item.get("url"),
    "snippet": item.get("text") or item.get("summary") or ""}\<close>
\<close>

definition search_stub :: "json \<Rightarrow> exc + json" where
  "search_stub item =
     bindE (py_get item ''title'' JNull) (\<lambda>title.
     bindE (py_get item ''url'' JNull) (\<lambda>url.
     bindE (py_get item ''text'' JNull) (\<lambda>text.
       if truthy text
       then Inr (JObj [(''title'', title), (''url'', url), (''snippet'', text)])
       else bindE (py_get item ''summary'' JNull) (\<lambda>summary.
              Inr (JObj [(''title'', title), (''url'', url),
                         (''snippet'', py_or summary (JStr []))])))))"

definition search_request :: "env \<Rightarrow> json \<Rightarrow> json \<Rightarrow> request" where
  "search_request E query num_results =
     \<lparr>req_method = ''POST'', req_url = EXA_SEARCH_ENDPOINT,
      req_json = Some (JObj [(''query'', query), (''num_results'', num_results),
                             (''text'', JBool False)]),
      req_headers = api_key_header E, req_timeout = 30\<rparr>"

definition exa_web_search :: "env \<Rightarrow> json \<Rightarrow> json \<Rightarrow> json list io" where
  "exa_web_search E query num_results =
     (if EXA_API_KEY E = [] then raise credential_error
      else bind (send E (search_request E query num_results)) (\<lambda>data.
             lift (bindE (py_get data ''results'' (JArr [])) (\<lambda>rs.
                   bindE (py_slice_to rs num_results) (\<lambda>sl.
                   bindE (py_iter sl) (map_exc search_stub))))))"

text \<open>
  \<^verbatim>\<open>{"title": ..., "url": ..., "score": item.get("score"),
    "text": (item.get("text") or item.get("summary") or "") if include_text else None}\<close>
\<close>

definition similar_link :: "json \<Rightarrow> json \<Rightarrow> exc + json" where
  "similar_link include_text item =
     bindE (py_get item ''title'' JNull) (\<lambda>title.
     bindE (py_get item ''url'' JNull) (\<lambda>url.
     bindE (py_get item ''score'' JNull) (\<lambda>score.
       if truthy include_text
       then bindE (py_get item ''text'' JNull) (\<lambda>text.
              if truthy text
              then Inr (JObj [(''title'', title), (''url'', url), (''score'', score),
                              (''text'', text)])
              else bindE (py_get item ''summary'' JNull) (\<lambda>summary.
                     Inr (JObj [(''title'', title), (''url'', url), (''score'', score),
                                (''text'', py_or summary (JStr []))])))
       else Inr (JObj [(''title'', title), (''url'', url), (''score'', score),
                       (''text'', JNull)]))))"

definition find_similar_request :: "env \<Rightarrow> json \<Rightarrow> json \<Rightarrow> request" where
  "find_similar_request E url include_text =
     \<lparr>req_method = ''POST'', req_url = EXA_FIND_SIMILAR_ENDPOINT,
      req_json = Some (JObj [(''url'', url), (''text'', include_text)]),
      req_headers = api_key_header E, req_timeout = 30\<rparr>"

definition exa_find_similar_links :: "env \<Rightarrow> json \<Rightarrow> json \<Rightarrow> json \<Rightarrow> json list io" where
  "exa_find_similar_links E url include_text num_results =
     (if EXA_API_KEY E = [] then raise credential_error
      else bind (send E (find_similar_request E url include_text)) (\<lambda>data.
             lift (bindE (py_get data ''results'' (JArr [])) (\<lambda>rs.
                   bindE (py_slice_to rs num_results) (\<lambda>sl.
                   bindE (py_iter sl) (map_exc (similar_link include_text)))))))"

definition answer_request :: "env \<Rightarrow> json \<Rightarrow> json \<Rightarrow> request" where
  "answer_request E query include_text =
     \<lparr>req_method = ''POST'', req_url = EXA_ANSWER_ENDPOINT,
      req_json = Some (JObj [(''query'', query), (''text'', include_text)]),
      req_headers = api_key_header E, req_timeout = 30\<rparr>"

definition exa_answer_question :: "env \<Rightarrow> json \<Rightarrow> json \<Rightarrow> json io" where
  "exa_answer_question E query include_text =
     (if EXA_API_KEY E = [] then raise credential_error
      else send E (answer_request E query include_text))"

definition research_start_request :: "env \<Rightarrow> json \<Rightarrow> json \<Rightarrow> json \<Rightarrow> request" where
  "research_start_request E instructions model output_schema =
     \<lparr>req_method = ''POST'', req_url = EXA_RESEARCH_TASKS_ENDPOINT,
      req_json = Some (JObj ([(''instructions'', instructions)]
                   @ (if truthy model then [(''model'', model)] else [])
                   @ (if truthy output_schema
                      then [(''output'', JObj [(''schema'', output_schema)])] else []))),
      req_headers = api_key_header E @ [(''Content-Type'', ''application/json'')],
      req_timeout = 30\<rparr>"

definition exa_research_start :: "env \<Rightarrow> json \<Rightarrow> json \<Rightarrow> json \<Rightarrow> json io" where
  "exa_research_start E instructions model output_schema =
     (if EXA_API_KEY E = [] then raise credential_error
      else send E (research_start_request E instructions model output_schema))"

text \<open>An f-string field: a \<^verbatim>\<open>str\<close> is inserted as it is, anything else through \<^verbatim>\<open>str\<close>.\<close>

definition format_value :: "env \<Rightarrow> json \<Rightarrow> string" where
  "format_value E v = (case v of JStr s \<Rightarrow> s | _ \<Rightarrow> py_str E v)"

definition research_poll_request :: "env \<Rightarrow> json \<Rightarrow> request" where
  "research_poll_request E task_id =
     \<lparr>req_method = ''GET'',
      req_url = EXA_RESEARCH_TASKS_ENDPOINT @ ''/'' @ format_value E task_id,
      req_json = None, req_headers = api_key_header E, req_timeout = 30\<rparr>"

definition exa_research_poll :: "env \<Rightarrow> json \<Rightarrow> json io" where
  "exa_research_poll E task_id =
     (if EXA_API_KEY E = [] then raise credential_error
      else send E (research_poll_request E task_id))"

text \<open>\<^verbatim>\<open>{"title": r.get("title"), "url": r.get("url"), "text": r.get("text")}\<close>\<close>

definition page_record :: "json \<Rightarrow> exc + json" where
  "page_record r =
     bindE (py_get r ''title'' JNull) (\<lambda>title.
     bindE (py_get r ''url'' JNull) (\<lambda>url.
     bindE (py_get r ''text'' JNull) (\<lambda>text.
       Inr (JObj [(''title'', title), (''url'', url), (''text'', text)]))))"

definition fetch_content_request :: "env \<Rightarrow> json \<Rightarrow> request" where
  "fetch_content_request E url =
     \<lparr>req_method = ''POST'', req_url = EXA_CONTENTS_ENDPOINT,
      req_json = Some (JObj [(''urls'', JArr [url]), (''text'', JBool True)]),
      req_headers = api_key_header E, req_timeout = 30\<rparr>"

text \<open>
  \<^verbatim>\<open>results = data.get("results", [])\<close>, then \<^verbatim>\<open>if not results: raise ...\<close>, then
  \<^verbatim>\<open>result = results[0]\<close>.
\<close>

definition first_result :: "json \<Rightarrow> exc + json" where
  "first_result data =
     bindE (py_get data ''results'' (JArr [])) (\<lambda>results.
       if \<not> truthy results then Inl no_content_error else py_index0 results)"

definition exa_fetch_content :: "env \<Rightarrow> json \<Rightarrow> json io" where
  "exa_fetch_content E url =
     (if EXA_API_KEY E = [] then raise credential_error
      else bind (send E (fetch_content_request E url)) (\<lambda>data.
             lift (bindE (first_result data) page_record)))"

text \<open>The message of this check is written with U+2011, a non-breaking hyphen.\<close>

definition urls_empty_error :: exc where
  "urls_empty_error =
     Exc Exception (''Argument 'urls' must be a non'' @ [CHR 0xE2, CHR 0x80, CHR 0x91]
                    @ ''empty list of URLs'')"

definition fetch_contents_request :: "env \<Rightarrow> json \<Rightarrow> json \<Rightarrow> request" where
  "fetch_contents_request E urls livecrawl =
     \<lparr>req_method = ''POST'', req_url = EXA_CONTENTS_ENDPOINT,
      req_json = Some (JObj ([(''urls'', urls), (''text'', JBool True)]
                   @ (if truthy livecrawl then [(''livecrawl'', livecrawl)] else []))),
      req_headers = api_key_header E, req_timeout = 60\<rparr>"

definition exa_fetch_contents :: "env \<Rightarrow> json \<Rightarrow> json \<Rightarrow> json list io" where
  "exa_fetch_contents E urls livecrawl =
     (if EXA_API_KEY E = [] then raise credential_error
      else if \<not> truthy urls then raise urls_empty_error
      else bind (send E (fetch_contents_request E urls livecrawl)) (\<lambda>data.
             lift (bindE (py_get data ''results'' (JArr [])) (\<lambda>rs.
                   bindE (py_iter rs) (map_exc page_record)))))"

definition fetch_subpages_request :: "env \<Rightarrow> json \<Rightarrow> json \<Rightarrow> json \<Rightarrow> json \<Rightarrow> request" where
  "fetch_subpages_request E url subpages subpage_target livecrawl =
     \<lparr>req_method = ''POST'', req_url = EXA_CONTENTS_ENDPOINT,
      req_json = Some (JObj ([(''urls'', JArr [url]), (''text'', JBool True),
                              (''subpages'', subpages)]
                   @ (if truthy subpage_target then [(''subpage_target'', subpage_target)]
                      else [])
                   @ (if truthy livecrawl then [(''livecrawl'', livecrawl)] else []))),
      req_headers = api_key_header E, req_timeout = 60\<rparr>"

definition subpage_bundle :: "json \<Rightarrow> exc + json" where
  "subpage_bundle result =
     bindE (page_record result) (\<lambda>page.
     bindE (py_get result ''subpages'' (JArr [])) (\<lambda>subs.
     bindE (py_iter subs) (\<lambda>items.
     bindE (map_exc page_record items) (\<lambda>subpages_results.
       Inr (JObj [(''page'', page), (''subpages'', JArr subpages_results)])))))"

definition exa_fetch_subpages :: "env \<Rightarrow> json \<Rightarrow> json \<Rightarrow> json \<Rightarrow> json \<Rightarrow> json io" where
  "exa_fetch_subpages E url subpages subpage_target livecrawl =
     (if EXA_API_KEY E = [] then raise credential_error
      else bind (send E (fetch_subpages_request E url subpages subpage_target livecrawl))
             (\<lambda>data. lift (bindE (first_result data) subpage_bundle)))"

section \<open>The dispatcher\<close>

datatype text_content = TextContent (content_type: string) (content_text: string)

subsection \<open>Enrichment of search results\<close>

text \<open>\<^verbatim>\<open>urls = [item.get("url") for item in results if item.get("url")]\<close>\<close>

definition stub_urls :: "json list \<Rightarrow> exc + json list" where
  "stub_urls results =
     bindE (map_exc (\<lambda>item. py_get item ''url'' JNull) results) (\<lambda>us. Inr (filter truthy us))"

text \<open>\<^verbatim>\<open>url_to_content = {item.get("url"): item for item in contents}\<close>\<close>

definition url_to_content :: "json list \<Rightarrow> exc + (json \<times> json) list" where
  "url_to_content contents =
     map_exc (\<lambda>item. bindE (py_get item ''url'' JNull) (\<lambda>u.
                       bindE (py_hash u) (\<lambda>k. Inr (k, item)))) contents"

text \<open>
  \<^verbatim>\<open>for item in results:
      page_url = item.get("url")
      enriched_results.append(url_to_content.get(page_url, item))\<close>
\<close>

definition merge_contents :: "json list \<Rightarrow> json list \<Rightarrow> exc + json list" where
  "merge_contents contents results =
     bindE (url_to_content contents) (\<lambda>d.
       map_exc (\<lambda>item. bindE (py_get item ''url'' JNull) (\<lambda>page_url.
                         dict_lookup d page_url item)) results)"

text \<open>
  \<^verbatim>\<open>for item in results:
      try:
          content = await exa_fetch_content(url=item.get("url"))
          enriched_results.append(content)
      except Exception:
          enriched_results.append(item)\<close>
\<close>

fun fetch_each :: "env \<Rightarrow> json list \<Rightarrow> json list io" where
  "fetch_each E [] = ret []"
| "fetch_each E (item # rest) =
     bind (try_except
             (bind (lift (py_get item ''url'' JNull)) (\<lambda>u. exa_fetch_content E u))
             (\<lambda>e. ret item))
          (\<lambda>c. bind (fetch_each E rest) (\<lambda>cs. ret (c # cs)))"

definition enrich :: "env \<Rightarrow> json list \<Rightarrow> json list io" where
  "enrich E results =
     bind (lift (stub_urls results)) (\<lambda>urls.
       try_except
         (bind (exa_fetch_contents E (JArr urls) JNull) (\<lambda>contents.
            lift (merge_contents contents results)))
         (\<lambda>e. fetch_each E results))"

subsection \<open>One branch per tool\<close>

definition required :: "string \<Rightarrow> exc" where
  "required arg = Exc ValueError (''Argument '' @ quoted arg @ '' is required'')"

definition web_search_tool :: "env \<Rightarrow> json \<Rightarrow> string io" where
  "web_search_tool E arguments =
     bind (lift (py_get arguments ''query'' JNull)) (\<lambda>query.
       if \<not> truthy query then raise (required ''query'')
       else
     bind (lift (py_get arguments ''num_results'' (JInt 3))) (\<lambda>num_results.
     bind (lift (py_get arguments ''include_text'' (JBool False))) (\<lambda>include_text.
     bind (exa_web_search E query num_results) (\<lambda>results.
     bind (if truthy include_text then enrich E results else ret results) (\<lambda>results'.
     lift (json_dumps E (JArr results')))))))"

definition fetch_content_tool :: "env \<Rightarrow> json \<Rightarrow> string io" where
  "fetch_content_tool E arguments =
     bind (lift (py_get arguments ''url'' JNull)) (\<lambda>url.
       if \<not> truthy url then raise (required ''url'')
       else
     bind (exa_fetch_content E url) (\<lambda>result.
     lift (json_dumps E result)))"

definition find_similar_links_tool :: "env \<Rightarrow> json \<Rightarrow> string io" where
  "find_similar_links_tool E arguments =
     bind (lift (py_get arguments ''url'' JNull)) (\<lambda>url.
       if \<not> truthy url then raise (required ''url'')
       else
     bind (lift (py_get arguments ''include_text'' (JBool False))) (\<lambda>include_text.
     bind (lift (py_get arguments ''num_results'' (JInt 3))) (\<lambda>num_results.
     bind (exa_find_similar_links E url include_text num_results) (\<lambda>results.
     lift (json_dumps E (JArr results))))))"

text \<open>
  The two dispatchers of the source differ in the message of this branch: the one
  registered by \<^verbatim>\<open>build_mcp_server\<close> writes \<^verbatim>\<open>non-empty\<close> with the ASCII hyphen, the
  one defined in \<^verbatim>\<open>main\<close> with U+2011.
\<close>

definition urls_message :: string where
  "urls_message = ''Argument 'urls' must be a non-empty list''"

definition main_urls_message :: string where
  "main_urls_message =
     ''Argument 'urls' must be a non'' @ [CHR 0xE2, CHR 0x80, CHR 0x91] @ ''empty list''"

definition fetch_contents_tool :: "string \<Rightarrow> env \<Rightarrow> json \<Rightarrow> string io" where
  "fetch_contents_tool message E arguments =
     bind (lift (py_get arguments ''urls'' JNull)) (\<lambda>urls.
       if \<not> truthy urls \<or> \<not> isinstance_list urls then raise (Exc ValueError message)
       else
     bind (lift (py_get arguments ''livecrawl'' JNull)) (\<lambda>livecrawl.
     bind (exa_fetch_contents E urls livecrawl) (\<lambda>results.
     lift (json_dumps E (JArr results)))))"

definition subpage_target_error :: exc where
  "subpage_target_error =
     Exc ValueError ''Argument 'subpage_target' must be an array of strings if provided''"

definition fetch_subpages_tool :: "env \<Rightarrow> json \<Rightarrow> string io" where
  "fetch_subpages_tool E arguments =
     bind (lift (py_get arguments ''url'' JNull)) (\<lambda>url.
       if \<not> truthy url then raise (required ''url'')
       else
     bind (lift (py_get arguments ''subpages'' (JInt 5))) (\<lambda>subpages.
     bind (lift (py_get arguments ''subpage_target'' JNull)) (\<lambda>subpage_target.
       if truthy subpage_target \<and> \<not> isinstance_list subpage_target
       then raise subpage_target_error
       else
     bind (lift (py_get arguments ''livecrawl'' JNull)) (\<lambda>livecrawl.
     bind (exa_fetch_subpages E url subpages subpage_target livecrawl) (\<lambda>result.
     lift (json_dumps E result))))))"

definition answer_question_tool :: "env \<Rightarrow> json \<Rightarrow> string io" where
  "answer_question_tool E arguments =
     bind (lift (py_get arguments ''query'' JNull)) (\<lambda>query.
       if \<not> truthy query then raise (required ''query'')
       else
     bind (lift (py_get arguments ''include_text'' (JBool False))) (\<lambda>include_text.
     bind (exa_answer_question E query include_text) (\<lambda>result.
     lift (json_dumps E result))))"

definition research_start_tool :: "env \<Rightarrow> json \<Rightarrow> string io" where
  "research_start_tool E arguments =
     bind (lift (py_get arguments ''instructions'' JNull)) (\<lambda>instructions.
       if \<not> truthy instructions then raise (required ''instructions'')
       else
     bind (lift (py_get arguments ''model'' JNull)) (\<lambda>model.
     bind (lift (py_get arguments ''output_schema'' JNull)) (\<lambda>output_schema.
     bind (exa_research_start E instructions model output_schema) (\<lambda>result.
     lift (json_dumps E result)))))"

definition research_poll_tool :: "env \<Rightarrow> json \<Rightarrow> string io" where
  "research_poll_tool E arguments =
     bind (lift (py_get arguments ''task_id'' JNull)) (\<lambda>task_id.
       if \<not> truthy task_id then raise (required ''task_id'')
       else
     bind (exa_research_poll E task_id) (\<lambda>result.
     lift (json_dumps E result)))"

definition unknown_tool :: "string \<Rightarrow> string" where
  "unknown_tool name = ''Error: Unknown tool '' @ quoted name"

subsection \<open>The dispatcher registered by \<^verbatim>\<open>build_mcp_server\<close>\<close>

text \<open>The names of the catalog returned by \<^verbatim>\<open>list_tools\<close>.\<close>

definition tool_names :: "string list" where
  "tool_names =
     [''exa_web_search'', ''exa_fetch_content'', ''exa_fetch_contents'', ''exa_fetch_subpages'',
      ''exa_find_similar_links'', ''exa_answer_question'', ''exa_research_start'',
      ''exa_research_poll'']"

text \<open>The body of the \<^verbatim>\<open>try\<close> statement: the chain of \<^verbatim>\<open>if\<close>/\<^verbatim>\<open>elif\<close> on the name.\<close>

definition call_tool_body :: "env \<Rightarrow> string \<Rightarrow> json \<Rightarrow> string io" where
  "call_tool_body E name arguments =
     (if name = ''exa_web_search'' then web_search_tool E arguments
      else if name = ''exa_fetch_content'' then fetch_content_tool E arguments
      else if name = ''exa_find_similar_links'' then find_similar_links_tool E arguments
      else if name = ''exa_fetch_contents'' then fetch_contents_tool urls_message E arguments
      else if name = ''exa_fetch_subpages'' then fetch_subpages_tool E arguments
      else if name = ''exa_answer_question'' then answer_question_tool E arguments
      else if name = ''exa_research_start'' then research_start_tool E arguments
      else if name = ''exa_research_poll'' then research_poll_tool E arguments
      else ret (unknown_tool name))"

text \<open>
  \<^verbatim>\<open>try: ... return [TextContent(type="text", text=...)]
  except Exception as e: return [TextContent(type="text", text=f"Error: {str(e)}")]\<close>
\<close>

definition respond :: "string io \<Rightarrow> request list \<Rightarrow> text_content list \<times> request list" where
  "respond body sent =
     (case body sent of
        (Inr t, sent') \<Rightarrow> ([TextContent ''text'' t], sent')
      | (Inl e, sent') \<Rightarrow> ([TextContent ''text'' (''Error: '' @ str_exc e)], sent'))"

definition call_tool :: "env \<Rightarrow> string \<Rightarrow> json \<Rightarrow> request list \<Rightarrow> text_content list \<times> request list"
  where "call_tool E name arguments = respond (call_tool_body E name arguments)"

subsection \<open>The dispatcher defined in \<^verbatim>\<open>main\<close>\<close>

text \<open>
  The chain of the source repeats the branches of \<^verbatim>\<open>exa_fetch_contents\<close> and
  \<^verbatim>\<open>exa_fetch_subpages\<close>; the model keeps the repetition.
\<close>

definition main_call_tool_body :: "env \<Rightarrow> string \<Rightarrow> json \<Rightarrow> string io" where
  "main_call_tool_body E name arguments =
     (if name = ''exa_web_search'' then web_search_tool E arguments
      else if name = ''exa_fetch_content'' then fetch_content_tool E arguments
      else if name = ''exa_find_similar_links'' then find_similar_links_tool E arguments
      else if name = ''exa_fetch_contents'' then fetch_contents_tool main_urls_message E arguments
      else if name = ''exa_fetch_subpages'' then fetch_subpages_tool E arguments
      else if name = ''exa_fetch_contents'' then fetch_contents_tool main_urls_message E arguments
      else if name = ''exa_fetch_subpages'' then fetch_subpages_tool E arguments
      else if name = ''exa_answer_question'' then answer_question_tool E arguments
      else if name = ''exa_research_start'' then research_start_tool E arguments
      else if name = ''exa_research_poll'' then research_poll_tool E arguments
      else ret (unknown_tool name))"

definition main_call_tool ::
  "env \<Rightarrow> string \<Rightarrow> json \<Rightarrow> request list \<Rightarrow> text_content list \<times> request list"
  where "main_call_tool E name arguments = respond (main_call_tool_body E name arguments)"

section \<open>Sample environments\<close>

text \<open>An environment whose network is down: every request raises.\<close>

definition offline_env :: env where
  "offline_env =
     \<lparr>EXA_API_KEY = ''test-key'',
      http = (\<lambda>sent r. Inl (Exc HTTPError ''All connection attempts failed'')),
      json_dumps = (\<lambda>v. Inr ''null''),
      py_str = (\<lambda>v. ''None'')\<rparr>"

text \<open>An upstream that answers every request with an empty list of results.\<close>

definition empty_results_env :: env where
  "empty_results_env =
     \<lparr>EXA_API_KEY = ''test-key'',
      http = (\<lambda>sent r. Inr (JObj [(''results'', JArr [])])),
      json_dumps = (\<lambda>v. Inr ''null''),
      py_str = (\<lambda>v. ''None'')\<rparr>"

text \<open>
  An upstream with fixed replies: two hits for every search, two similar links for every
  findSimilar request, and no contents endpoint.
\<close>

definition search_hits :: "(string \<times> json) list list" where
  "search_hits =
     [[(''title'', JStr ''A''), (''url'', JStr ''https://a.com''), (''text'', JStr ''alpha'')],
      [(''title'', JStr ''B''), (''url'', JStr ''https://b.com''), (''summary'', JStr ''bravo'')]]"

definition similar_hits :: "(string \<times> json) list list" where
  "similar_hits =
     [[(''title'', JStr ''Rel1''), (''url'', JStr ''https://r1.com''), (''score'', JFloat (9 / 10)),
       (''summary'', JStr ''S'')],
      [(''title'', JStr ''Rel2''), (''url'', JStr ''https://r2.com''), (''score'', JFloat (8 / 10)),
       (''text'', JStr ''FULL'')]]"

definition mock_env :: env where
  "mock_env =
     \<lparr>EXA_API_KEY = ''test-key'',
      http = (\<lambda>sent r.
        if req_url r = EXA_SEARCH_ENDPOINT then Inr (JObj [(''results'', JArr (map JObj search_hits))])
        else if req_url r = EXA_FIND_SIMILAR_ENDPOINT
        then Inr (JObj [(''results'', JArr (map JObj similar_hits))])
        else Inl (Exc HTTPError ''All connection attempts failed'')),
      json_dumps = (\<lambda>v. Inr ''null''),
      py_str = (\<lambda>v. ''None'')\<rparr>"

text \<open>
  The stubs that the search operation builds from the two hits, a fetched page, and a
  fetched page whose \<^verbatim>\<open>url\<close> is a list; three upstreams that answer a search with the
  two hits and the contents endpoint with the page, with the odd page, or with the page
  for the single url of the first hit only.
\<close>

definition stub_a :: json where
  "stub_a = JObj [(''title'', JStr ''A''), (''url'', JStr ''https://a.com''),
                  (''snippet'', JStr ''alpha'')]"

definition stub_b :: json where
  "stub_b = JObj [(''title'', JStr ''B''), (''url'', JStr ''https://b.com''),
                  (''snippet'', JStr ''bravo'')]"

definition page_a :: json where
  "page_a = JObj [(''title'', JStr ''A''), (''url'', JStr ''https://a.com''),
                  (''text'', JStr ''FULL A'')]"

definition odd_page :: json where
  "odd_page = JObj [(''title'', JStr ''Page''), (''url'', JArr [JStr ''https://a.com'']),
                    (''text'', JStr ''FULL'')]"

definition enrich_args :: "(string \<times> json) list" where
  "enrich_args = [(''query'', JStr ''q''), (''include_text'', JBool True)]"

definition bulk_env :: env where
  "bulk_env =
     \<lparr>EXA_API_KEY = ''test-key'',
      http = (\<lambda>sent r.
        if req_url r = EXA_SEARCH_ENDPOINT
        then Inr (JObj [(''results'', JArr (map JObj search_hits))])
        else if req_url r = EXA_CONTENTS_ENDPOINT then Inr (JObj [(''results'', JArr [page_a])])
        else Inl (Exc HTTPError ''All connection attempts failed'')),
      json_dumps = (\<lambda>v. Inr ''null''),
      py_str = (\<lambda>v. ''None'')\<rparr>"

definition list_url_env :: env where
  "list_url_env =
     \<lparr>EXA_API_KEY = ''test-key'',
      http = (\<lambda>sent r.
        if req_url r = EXA_SEARCH_ENDPOINT
        then Inr (JObj [(''results'', JArr (map JObj search_hits))])
        else if req_url r = EXA_CONTENTS_ENDPOINT then Inr (JObj [(''results'', JArr [odd_page])])
        else Inl (Exc HTTPError ''All connection attempts failed'')),
      json_dumps = (\<lambda>v. Inr ''null''),
      py_str = (\<lambda>v. ''None'')\<rparr>"

definition fallback_env :: env where
  "fallback_env =
     \<lparr>EXA_API_KEY = ''test-key'',
      http = (\<lambda>sent r.
        if req_url r = EXA_SEARCH_ENDPOINT
        then Inr (JObj [(''results'', JArr (map JObj search_hits))])
        else if req_json r
                = Some (JObj [(''urls'', JArr [JStr ''https://a.com'']), (''text'', JBool True)])
        then Inr (JObj [(''results'', JArr [page_a])])
        else Inl (Exc HTTPError ''Server error 500'')),
      json_dumps = (\<lambda>v. Inr ''null''),
      py_str = (\<lambda>v. ''None'')\<rparr>"

section \<open>Running the state-passing combinators\<close>

lemma bind_apply:
  "bind m f s = (case m s of (Inl e, s') \<Rightarrow> (Inl e, s') | (Inr x, s') \<Rightarrow> f x s')"
  by (simp add: bind_def)

lemma try_except_apply:
  "try_except m h s = (case m s of (Inl e, s') \<Rightarrow> h e s' | (Inr x, s') \<Rightarrow> (Inr x, s'))"
  by (simp add: try_except_def)

lemma ret_apply: "ret x s = (Inr x, s)"
  by (simp add: ret_def)

lemma raise_apply: "raise e s = (Inl e, s)"
  by (simp add: raise_def)

lemma lift_apply: "lift r s = (r, s)"
  by (simp add: lift_def)

lemma send_apply: "send E r s = (http E s r, s @ [r])"
  by (simp add: send_def)

lemmas io_simps = bind_apply try_except_apply ret_apply raise_apply lift_apply send_apply

lemma dict_get_Nil: "dict_get [] k d = d"
  by (simp add: dict_get_def)

lemma dict_get_Cons: "dict_get ((k', v) # kvs) k d = (if k = k' then v else dict_get kvs k d)"
  by (simp add: dict_get_def)

lemma bindE_Inl: "bindE (Inl e) f = Inl e"
  by (simp add: bindE_def)

lemma bindE_Inr: "bindE (Inr x) f = f x"
  by (simp add: bindE_def)

section \<open>Which exceptions the helpers raise\<close>

lemma py_get_error: "py_get v k d = Inl e \<Longrightarrow> exc_kind e = AttributeError"
  by (cases v) (auto simp: no_attribute_get_def)

lemma py_iter_error: "py_iter v = Inl e \<Longrightarrow> exc_kind e = TypeError"
  by (cases v) (auto simp: not_iterable_def)

lemma bindE_eq_Inl:
  "bindE m f = Inl e \<longleftrightarrow> m = Inl e \<or> (\<exists>x. m = Inr x \<and> f x = Inl e)"
  by (cases m) (simp_all add: bindE_def)

lemma bindE_eq_Inr:
  "bindE m f = Inr y \<longleftrightarrow> (\<exists>x. m = Inr x \<and> f x = Inr y)"
  by (cases m) (simp_all add: bindE_def)

lemma map_exc_error:
  assumes "map_exc f xs = Inl e"
  shows "\<exists>x \<in> set xs. f x = Inl e"
  using assms by (induction xs) (auto simp: bindE_eq_Inl)

lemma page_record_error: "page_record r = Inl e \<Longrightarrow> exc_kind e = AttributeError"
  by (auto simp: page_record_def bindE_eq_Inl dest: py_get_error)

lemma utf8_chars_Nil: "utf8_chars s = [] \<longleftrightarrow> s = []"
  by (cases s) simp_all

lemma py_index0_error:
  "truthy v \<Longrightarrow> py_index0 v = Inl e \<Longrightarrow> exc_kind e \<noteq> IndexError"
  by (cases v rule: py_index0.cases)
     (auto simp: not_subscriptable_def utf8_chars_Nil split: list.splits)

lemma first_result_error: "first_result data = Inl e \<Longrightarrow> exc_kind e \<noteq> IndexError"
  by (auto simp: first_result_def bindE_eq_Inl no_content_error_def
      dest: py_get_error py_index0_error split: if_splits)

lemma subpage_bundle_error: "subpage_bundle r = Inl e \<Longrightarrow> exc_kind e \<noteq> IndexError"
  by (auto simp: subpage_bundle_def bindE_eq_Inl
      dest!: py_get_error py_iter_error page_record_error map_exc_error)

section \<open>The exception handler of the dispatcher\<close>

lemma respond_bind_raises:
  "fst (m s) = Inl e \<Longrightarrow>
   fst (respond (bind m f) s) = [TextContent ''text'' (''Error: '' @ str_exc e)]"
  by (cases "m s") (auto simp: respond_def bind_apply)

lemma respond_length: "length (fst (respond body s)) = 1"
  by (simp add: respond_def split: prod.splits sum.splits)

lemma respond_raises:
  "fst (body s) = Inl e \<Longrightarrow>
   fst (respond body s) = [TextContent ''text'' (''Error: '' @ str_exc e)]"
  by (cases "body s") (auto simp: respond_def)

section \<open>Slices and reshaping loops\<close>

lemma slice_upto_nonneg: "0 \<le> k \<Longrightarrow> slice_upto xs (Some k) = take (nat k) xs"
  by (simp add: slice_upto_def)

lemma take_min_length: "take (nat (min k (int (length xs)))) xs = take (nat k) xs"
  by (cases "k \<le> int (length xs)") (simp_all add: min_def)

lemma map_exc_search_stub:
  "map_exc search_stub (map JObj ds)
     = Inr (map (\<lambda>d. JObj [(''title'', dict_get d ''title'' JNull),
                          (''url'', dict_get d ''url'' JNull),
                          (''snippet'',
                             if truthy (dict_get d ''text'' JNull) then dict_get d ''text'' JNull
                             else if truthy (dict_get d ''summary'' JNull)
                                  then dict_get d ''summary'' JNull
                                  else JStr [])]) ds)"
  by (induction ds) (simp_all add: search_stub_def bindE_def py_or_def)

lemma map_exc_similar_link:
  "map_exc (similar_link include_text) (map JObj ds)
     = Inr (map (\<lambda>d. JObj [(''title'', dict_get d ''title'' JNull),
                          (''url'', dict_get d ''url'' JNull),
                          (''score'', dict_get d ''score'' JNull),
                          (''text'',
                             if truthy include_text
                             then (if truthy (dict_get d ''text'' JNull)
                                   then dict_get d ''text'' JNull
                                   else if truthy (dict_get d ''summary'' JNull)
                                        then dict_get d ''summary'' JNull
                                        else JStr [])
                             else JNull)]) ds)"
  by (induction ds) (simp_all add: similar_link_def bindE_def py_or_def)

lemma dict_get_append_other:
  "k \<noteq> k' \<Longrightarrow> dict_get (kvs @ [(k', v)]) k d = dict_get kvs k d"
  by (simp add: dict_get_def map_add_def split: option.splits)

lemma dict_get_append_absent:
  "map_of kvs k = None \<Longrightarrow> dict_get (kvs @ [(k, v)]) k d = v"
  by (simp add: dict_get_def map_add_def)

lemma dict_get_absent: "map_of kvs k = None \<Longrightarrow> dict_get kvs k d = d"
  by (simp add: dict_get_def)

section \<open>Records built by the operations\<close>

lemma py_get_dict: "is_dict r \<Longrightarrow> py_get r k JNull = Inr (field r k)"
  by (cases r) simp_all

lemma map_exc_Inr:
  "map_exc f xs = Inr ys \<Longrightarrow> list_all2 (\<lambda>x y. f x = Inr y) xs ys"
  by (induction xs arbitrary: ys) (auto simp: bindE_eq_Inr)

lemma map_exc_map:
  "(\<And>x. x \<in> set xs \<Longrightarrow> f x = Inr (g x)) \<Longrightarrow> map_exc f xs = Inr (map g xs)"
  by (induction xs) (simp_all add: bindE_def)

lemma search_stub_is_dict: "search_stub item = Inr s \<Longrightarrow> is_dict s"
  by (auto simp: search_stub_def bindE_eq_Inr split: if_splits)

lemma page_record_is_dict: "page_record r = Inr c \<Longrightarrow> is_dict c"
  by (auto simp: page_record_def bindE_eq_Inr)

lemma map_exc_all:
  assumes "map_exc f xs = Inr ys" and "\<And>x y. f x = Inr y \<Longrightarrow> P y"
  shows "\<forall>y \<in> set ys. P y"
proof -
  from assms(1) have "list_all2 (\<lambda>x y. f x = Inr y) xs ys" by (rule map_exc_Inr)
  then show ?thesis
    using assms(2) by (induction rule: list_all2_induct) auto
qed

lemma exa_web_search_Inr:
  assumes "exa_web_search E query k sent = (Inr stubs, sent1)"
  shows "EXA_API_KEY E \<noteq> []" and "\<forall>s \<in> set stubs. is_dict s"
    and "sent1 = sent @ [search_request E query k]"
proof -
  show key: "EXA_API_KEY E \<noteq> []"
    using assms by (auto simp: exa_web_search_def raise_apply)
  from assms key obtain items where "map_exc search_stub items = Inr stubs"
    by (auto simp: exa_web_search_def io_simps bindE_eq_Inr split: sum.splits)
  then show "\<forall>s \<in> set stubs. is_dict s"
    by (rule map_exc_all) (rule search_stub_is_dict)
  show "sent1 = sent @ [search_request E query k]"
    using assms key by (auto simp: exa_web_search_def io_simps split: sum.splits)
qed

lemma exa_fetch_contents_Inr:
  assumes "exa_fetch_contents E urls livecrawl sent = (Inr contents, sent')"
  shows "\<forall>c \<in> set contents. is_dict c"
proof -
  from assms obtain items where "map_exc page_record items = Inr contents"
    by (auto simp: exa_fetch_contents_def io_simps bindE_eq_Inr split: sum.splits if_splits)
  then show ?thesis
    by (rule map_exc_all) (rule page_record_is_dict)
qed

lemma stub_urls_dicts:
  "\<forall>s \<in> set stubs. is_dict s \<Longrightarrow>
   stub_urls stubs = Inr (filter truthy (map (\<lambda>s. field s ''url'') stubs))"
  by (simp add: stub_urls_def map_exc_map py_get_dict bindE_def)

lemma py_hash_hashable: "hashable k \<Longrightarrow> py_hash k = Inr (key_norm k)"
  by (simp add: py_hash_def)

lemma url_to_content_hashable:
  assumes "\<forall>c \<in> set contents. is_dict c" and "\<forall>c \<in> set contents. hashable (field c ''url'')"
  shows "url_to_content contents = Inr (map (\<lambda>c. (key_norm (field c ''url''), c)) contents)"
  unfolding url_to_content_def using assms
  by (intro map_exc_map) (simp add: py_get_dict py_hash_hashable bindE_def)

lemma map_of_rev_last:
  "map_of (rev (map (\<lambda>c. (f c, c)) cs)) k
     = (case filter (\<lambda>c. f c = k) cs of [] \<Rightarrow> None | c # cs' \<Rightarrow> Some (last (c # cs')))"
proof (induction cs rule: rev_induct)
  case Nil
  then show ?case by simp
next
  case (snoc x xs)
  then show ?case by (auto split: list.splits)
qed

lemma merge_contents_hashable:
  assumes "\<forall>c \<in> set contents. is_dict c" and "\<forall>c \<in> set contents. hashable (field c ''url'')"
    and "\<forall>s \<in> set stubs. is_dict s" and "\<forall>s \<in> set stubs. hashable (field s ''url'')"
  shows "merge_contents contents stubs
     = Inr (map (\<lambda>s. case filter (\<lambda>c. key_norm (field c ''url'') = key_norm (field s ''url''))
                              contents of
                       [] \<Rightarrow> s
                     | c # cs \<Rightarrow> last (c # cs)) stubs)"
proof -
  have "map_exc (\<lambda>item. bindE (py_get item ''url'' JNull) (\<lambda>page_url.
           dict_lookup (map (\<lambda>c. (key_norm (field c ''url''), c)) contents) page_url item)) stubs
     = Inr (map (\<lambda>s. case filter (\<lambda>c. key_norm (field c ''url'') = key_norm (field s ''url''))
                              contents of
                       [] \<Rightarrow> s
                     | c # cs \<Rightarrow> last (c # cs)) stubs)"
    using assms(3,4)
    by (intro map_exc_map)
       (simp add: py_get_dict bindE_def dict_lookup_def py_hash_hashable map_of_rev_last
         split: list.splits)
  then show ?thesis
    using assms(1,2) by (simp add: merge_contents_def url_to_content_hashable bindE_def)
qed

section \<open>The per-url loop\<close>

lemma exa_fetch_content_sent:
  "EXA_API_KEY E \<noteq> [] \<Longrightarrow>
   snd (exa_fetch_content E u s) = s @ [fetch_content_request E u]"
  by (simp add: exa_fetch_content_def io_simps split: sum.splits prod.splits)

lemma fetch_one_or_keep:
  assumes "EXA_API_KEY E \<noteq> []" and "is_dict item"
  shows "try_except (bind (lift (py_get item ''url'' JNull)) (\<lambda>u. exa_fetch_content E u))
           (\<lambda>e. ret item) s
         = (Inr (case fst (exa_fetch_content E (field item ''url'') s) of
                   Inr c \<Rightarrow> c | Inl e \<Rightarrow> item),
            s @ [fetch_content_request E (field item ''url'')])"
proof -
  obtain r s' where r: "exa_fetch_content E (field item ''url'') s = (r, s')"
    by (cases "exa_fetch_content E (field item ''url'') s")
  with exa_fetch_content_sent [OF assms(1), of "field item ''url''" s]
  have "s' = s @ [fetch_content_request E (field item ''url'')]" by simp
  with r assms(2) show ?thesis
    by (cases r) (simp_all add: io_simps py_get_dict)
qed

lemma fetch_each_spec:
  assumes "EXA_API_KEY E \<noteq> []" and "\<forall>s \<in> set items. is_dict s"
  shows "\<exists>out. fetch_each E items s
            = (Inr out, s @ map (\<lambda>x. fetch_content_request E (field x ''url'')) items)
          \<and> length out = length items
          \<and> (\<forall>i<length items.
                out ! i = (case fst (exa_fetch_content E (field (items ! i) ''url'')
                                      (s @ map (\<lambda>x. fetch_content_request E (field x ''url''))
                                             (take i items))) of
                             Inr c \<Rightarrow> c | Inl e \<Rightarrow> items ! i))"
  using assms(2)
proof (induction items arbitrary: s)
  case Nil
  then show ?case by (simp add: ret_apply)
next
  case (Cons item rest)
  let ?req = "\<lambda>x. fetch_content_request E (field x ''url'')"
  let ?first = "case fst (exa_fetch_content E (field item ''url'') s) of
                  Inr c \<Rightarrow> c | Inl e \<Rightarrow> item"
  from Cons.prems have d: "is_dict item" and ds: "\<forall>s \<in> set rest. is_dict s" by simp_all
  from Cons.IH [OF ds, of "s @ [?req item]"] obtain out where
    run: "fetch_each E rest (s @ [?req item]) = (Inr out, (s @ [?req item]) @ map ?req rest)"
    and len: "length out = length rest"
    and nth: "\<forall>i<length rest.
                out ! i = (case fst (exa_fetch_content E (field (rest ! i) ''url'')
                                      ((s @ [?req item]) @ map ?req (take i rest))) of
                             Inr c \<Rightarrow> c | Inl e \<Rightarrow> rest ! i)"
    by blast
  have "fetch_each E (item # rest) s = (Inr (?first # out), s @ map ?req (item # rest))"
    by (simp add: bind_apply [of "try_except _ _"] fetch_one_or_keep [OF assms(1) d]
        bind_apply [of "fetch_each _ _"] run ret_apply)
  moreover have "length (?first # out) = length (item # rest)"
    using len by simp
  moreover have "\<forall>i<length (item # rest).
      (?first # out) ! i = (case fst (exa_fetch_content E (field ((item # rest) ! i) ''url'')
                                      (s @ map ?req (take i (item # rest)))) of
                             Inr c \<Rightarrow> c | Inl e \<Rightarrow> (item # rest) ! i)"
  proof (intro allI impI)
    fix i assume "i < length (item # rest)"
    then show "(?first # out) ! i
        = (case fst (exa_fetch_content E (field ((item # rest) ! i) ''url'')
                      (s @ map ?req (take i (item # rest)))) of
             Inr c \<Rightarrow> c | Inl e \<Rightarrow> (item # rest) ! i)"
      using nth by (cases i) (simp_all cong: sum.case_cong)
  qed
  ultimately show ?case by blast
qed

section \<open>Unfolding the sample environments\<close>

lemmas sample_defs = search_hits_def stub_a_def stub_b_def page_a_def
  enrich_args_def dict_get_def bindE_def

lemmas endpoint_defs = EXA_SEARCH_ENDPOINT_def EXA_CONTENTS_ENDPOINT_def
  EXA_FIND_SIMILAR_ENDPOINT_def EXA_ANSWER_ENDPOINT_def EXA_RESEARCH_TASKS_ENDPOINT_def

lemmas request_defs = search_request_def fetch_content_request_def fetch_contents_request_def
  api_key_header_def

section \<open>Enrichment of search results: the bulk fetch\<close>

text \<open>
  Claim C1, amended. For a search call dispatched with \<^verbatim>\<open>include_text\<close> true, whenever
  the single bulk contents fetch over the truthy stub urls succeeds and the \<^verbatim>\<open>url\<close> of
  every fetched record and of every stub is hashable (a string, a number, a boolean or
  \<^verbatim>\<open>None\<close>), the returned list has one entry per search stub in search order: a stub
  whose url equals the url of a fetched record is replaced by that record (the last one
  with that url), and every other stub is kept unchanged. No further request is sent.
  Equality of urls is Python's equality of dict keys, \<^term>\<open>key_norm a = key_norm b\<close>.
\<close>

theorem bulk_enrichment_keeps_every_stub:
  assumes "truthy (dict_get args ''query'' JNull)"
    and "truthy (dict_get args ''include_text'' (JBool False))"
    and search: "exa_web_search E (dict_get args ''query'' JNull)
                   (dict_get args ''num_results'' (JInt 3)) sent = (Inr stubs, sent1)"
    and bulk: "exa_fetch_contents E (JArr (filter truthy (map (\<lambda>s. field s ''url'') stubs)))
                 JNull sent1 = (Inr contents, sent2)"
    and hc: "\<forall>c \<in> set contents. hashable (field c ''url'')"
    and hs: "\<forall>s \<in> set stubs. hashable (field s ''url'')"
  shows "enrich E stubs sent1
     = (Inr (map (\<lambda>s. case filter (\<lambda>c. key_norm (field c ''url'') = key_norm (field s ''url''))
                            contents of
                       [] \<Rightarrow> s
                     | c # cs \<Rightarrow> last (c # cs)) stubs), sent2)
   \<and> call_tool_body E ''exa_web_search'' (JObj args) sent
     = (json_dumps E (JArr
          (map (\<lambda>s. case filter (\<lambda>c. key_norm (field c ''url'') = key_norm (field s ''url''))
                            contents of
                       [] \<Rightarrow> s
                     | c # cs \<Rightarrow> last (c # cs)) stubs)),
        sent2)"
proof -
  have ds: "\<forall>s \<in> set stubs. is_dict s"
    using search by (rule exa_web_search_Inr)
  have dc: "\<forall>c \<in> set contents. is_dict c"
    using bulk by (rule exa_fetch_contents_Inr)
  have en: "enrich E stubs sent1
     = (Inr (map (\<lambda>s. case filter (\<lambda>c. key_norm (field c ''url'') = key_norm (field s ''url''))
                            contents of
                       [] \<Rightarrow> s
                     | c # cs \<Rightarrow> last (c # cs)) stubs), sent2)"
    using bulk by (simp add: enrich_def io_simps stub_urls_dicts [OF ds]
        merge_contents_hashable [OF dc hc ds hs])
  with assms(1,2) search
  have "call_tool_body E ''exa_web_search'' (JObj args) sent
     = (json_dumps E (JArr
          (map (\<lambda>s. case filter (\<lambda>c. key_norm (field c ''url'') = key_norm (field s ''url''))
                            contents of
                       [] \<Rightarrow> s
                     | c # cs \<Rightarrow> last (c # cs)) stubs)),
        sent2)"
    by (simp add: call_tool_body_def web_search_tool_def io_simps)
  with en show ?thesis by simp
qed

theorem bulk_enrichment_keeps_every_stub_witness:
  "truthy (dict_get enrich_args ''query'' JNull)
   \<and> truthy (dict_get enrich_args ''include_text'' (JBool False))
   \<and> exa_web_search bulk_env (JStr ''q'') (JInt 3) []
       = (Inr [stub_a, stub_b], [search_request bulk_env (JStr ''q'') (JInt 3)])
   \<and> exa_fetch_contents bulk_env (JArr [JStr ''https://a.com'', JStr ''https://b.com'']) JNull
         [search_request bulk_env (JStr ''q'') (JInt 3)]
       = (Inr [page_a],
          [search_request bulk_env (JStr ''q'') (JInt 3),
           fetch_contents_request bulk_env
             (JArr [JStr ''https://a.com'', JStr ''https://b.com'']) JNull])
   \<and> hashable (field page_a ''url'') \<and> hashable (field stub_a ''url'')
   \<and> hashable (field stub_b ''url'')
   \<and> enrich bulk_env [stub_a, stub_b] [search_request bulk_env (JStr ''q'') (JInt 3)]
       = (Inr [page_a, stub_b],
          [search_request bulk_env (JStr ''q'') (JInt 3),
           fetch_contents_request bulk_env
             (JArr [JStr ''https://a.com'', JStr ''https://b.com'']) JNull])"
proof -
  let ?s1 = "[search_request bulk_env (JStr ''q'') (JInt 3)]"
  let ?s2 = "[search_request bulk_env (JStr ''q'') (JInt 3),
              fetch_contents_request bulk_env
                (JArr [JStr ''https://a.com'', JStr ''https://b.com'']) JNull]"
  have h1: "truthy (dict_get enrich_args ''query'' JNull)"
    by (simp add: sample_defs)
  have h2: "truthy (dict_get enrich_args ''include_text'' (JBool False))"
    by (simp add: sample_defs)
  have h3: "exa_web_search bulk_env (dict_get enrich_args ''query'' JNull)
              (dict_get enrich_args ''num_results'' (JInt 3)) [] = (Inr [stub_a, stub_b], ?s1)"
    by (simp add: exa_web_search_def io_simps bulk_env_def request_defs sample_defs
        slice_upto_def search_stub_def py_or_def)
  have h4: "exa_fetch_contents bulk_env
              (JArr (filter truthy (map (\<lambda>s. field s ''url'') [stub_a, stub_b]))) JNull ?s1
            = (Inr [page_a], ?s2)"
    by (simp add: exa_fetch_contents_def io_simps bulk_env_def request_defs sample_defs
        endpoint_defs page_record_def)
  have h5: "\<forall>c \<in> set [page_a]. hashable (field c ''url'')"
    by (simp add: sample_defs)
  have h6: "\<forall>s \<in> set [stub_a, stub_b]. hashable (field s ''url'')"
    by (simp add: sample_defs)
  from bulk_enrichment_keeps_every_stub [OF h1 h2 h3 h4 h5 h6]
  have "enrich bulk_env [stub_a, stub_b] ?s1 = (Inr [page_a, stub_b], ?s2)"
    by (simp add: sample_defs)
  with h1 h2 h3 h4 h5 h6 show ?thesis
    by (simp add: sample_defs)
qed

text \<open>
  Without the condition on the urls the claim fails. The lookup is built inside the
  \<^verbatim>\<open>try\<close> block; when the bulk reply carries a record whose \<^verbatim>\<open>url\<close> is a list, the dict
  comprehension raises \<^verbatim>\<open>TypeError\<close>, the handler runs the per-url loop, and both stubs
  are replaced although neither url occurs in the bulk reply.
\<close>

theorem unhashable_url_counterexample:
  "exa_web_search list_url_env (JStr ''q'') (JInt 3) []
       = (Inr [stub_a, stub_b], [search_request list_url_env (JStr ''q'') (JInt 3)])
   \<and> exa_fetch_contents list_url_env (JArr [JStr ''https://a.com'', JStr ''https://b.com'']) JNull
         [search_request list_url_env (JStr ''q'') (JInt 3)]
       = (Inr [odd_page],
          [search_request list_url_env (JStr ''q'') (JInt 3),
           fetch_contents_request list_url_env
             (JArr [JStr ''https://a.com'', JStr ''https://b.com'']) JNull])
   \<and> field odd_page ''url'' \<noteq> field stub_a ''url''
   \<and> field odd_page ''url'' \<noteq> field stub_b ''url''
   \<and> enrich list_url_env [stub_a, stub_b] [search_request list_url_env (JStr ''q'') (JInt 3)]
       = (Inr [odd_page, odd_page],
          [search_request list_url_env (JStr ''q'') (JInt 3),
           fetch_contents_request list_url_env
             (JArr [JStr ''https://a.com'', JStr ''https://b.com'']) JNull,
           fetch_content_request list_url_env (JStr ''https://a.com''),
           fetch_content_request list_url_env (JStr ''https://b.com'')])
   \<and> [odd_page, odd_page] \<noteq> [stub_a, stub_b]"
  by (simp add: exa_web_search_def exa_fetch_contents_def exa_fetch_content_def enrich_def
      stub_urls_def merge_contents_def url_to_content_def py_hash_def first_result_def
      io_simps list_url_env_def odd_page_def request_defs sample_defs endpoint_defs
      slice_upto_def search_stub_def py_or_def page_record_def)

section \<open>Enrichment of search results: the per-url fallback\<close>

text \<open>
  Claim C2. For a search call dispatched with \<^verbatim>\<open>include_text\<close> true, whenever the bulk
  contents fetch raises, the dispatcher calls fetch-one once per stub, in stub order:
  the requests sent after the bulk attempt are exactly the fetch-one requests for the
  urls of the stubs, in order. The result has the length of the stub list; at each
  position stands the fetched record when that fetch-one call returned, and the stub
  itself when it raised. The operation does not raise for a failing fetch-one call.
\<close>

theorem bulk_failure_falls_back_per_url:
  assumes "truthy (dict_get args ''query'' JNull)"
    and "truthy (dict_get args ''include_text'' (JBool False))"
    and search: "exa_web_search E (dict_get args ''query'' JNull)
                   (dict_get args ''num_results'' (JInt 3)) sent = (Inr stubs, sent1)"
    and bulk: "exa_fetch_contents E (JArr (filter truthy (map (\<lambda>s. field s ''url'') stubs)))
                 JNull sent1 = (Inl e, sent2)"
  shows "\<exists>out.
           enrich E stubs sent1
             = (Inr out, sent2 @ map (\<lambda>s. fetch_content_request E (field s ''url'')) stubs)
         \<and> call_tool_body E ''exa_web_search'' (JObj args) sent
             = (json_dumps E (JArr out),
                sent2 @ map (\<lambda>s. fetch_content_request E (field s ''url'')) stubs)
         \<and> length out = length stubs
         \<and> (\<forall>i<length stubs.
               out ! i
                 = (case fst (exa_fetch_content E (field (stubs ! i) ''url'')
                               (sent2 @ map (\<lambda>s. fetch_content_request E (field s ''url''))
                                          (take i stubs))) of
                      Inr c \<Rightarrow> c
                    | Inl e' \<Rightarrow> stubs ! i))"
proof -
  have key: "EXA_API_KEY E \<noteq> []" and ds: "\<forall>s \<in> set stubs. is_dict s"
    using search by (rule exa_web_search_Inr)+
  from fetch_each_spec [OF key ds, of sent2] obtain out where
    run: "fetch_each E stubs sent2
            = (Inr out, sent2 @ map (\<lambda>s. fetch_content_request E (field s ''url'')) stubs)"
    and len: "length out = length stubs"
    and nth: "\<forall>i<length stubs.
               out ! i
                 = (case fst (exa_fetch_content E (field (stubs ! i) ''url'')
                               (sent2 @ map (\<lambda>s. fetch_content_request E (field s ''url''))
                                          (take i stubs))) of
                      Inr c \<Rightarrow> c
                    | Inl e' \<Rightarrow> stubs ! i)"
    by blast
  have en: "enrich E stubs sent1
             = (Inr out, sent2 @ map (\<lambda>s. fetch_content_request E (field s ''url'')) stubs)"
    using bulk run by (simp add: enrich_def io_simps stub_urls_dicts [OF ds])
  with assms(1,2) search
  have "call_tool_body E ''exa_web_search'' (JObj args) sent
             = (json_dumps E (JArr out),
                sent2 @ map (\<lambda>s. fetch_content_request E (field s ''url'')) stubs)"
    by (simp add: call_tool_body_def web_search_tool_def io_simps)
  with en len nth show ?thesis by blast
qed

theorem bulk_failure_falls_back_per_url_witness:
  "truthy (dict_get enrich_args ''query'' JNull)
   \<and> truthy (dict_get enrich_args ''include_text'' (JBool False))
   \<and> exa_web_search fallback_env (JStr ''q'') (JInt 3) []
       = (Inr [stub_a, stub_b], [search_request fallback_env (JStr ''q'') (JInt 3)])
   \<and> exa_fetch_contents fallback_env (JArr [JStr ''https://a.com'', JStr ''https://b.com'']) JNull
         [search_request fallback_env (JStr ''q'') (JInt 3)]
       = (Inl (Exc HTTPError ''Server error 500''),
          [search_request fallback_env (JStr ''q'') (JInt 3),
           fetch_contents_request fallback_env
             (JArr [JStr ''https://a.com'', JStr ''https://b.com'']) JNull])
   \<and> enrich fallback_env [stub_a, stub_b] [search_request fallback_env (JStr ''q'') (JInt 3)]
       = (Inr [page_a, stub_b],
          [search_request fallback_env (JStr ''q'') (JInt 3),
           fetch_contents_request fallback_env
             (JArr [JStr ''https://a.com'', JStr ''https://b.com'']) JNull,
           fetch_content_request fallback_env (JStr ''https://a.com''),
           fetch_content_request fallback_env (JStr ''https://b.com'')])"
proof -
  let ?s1 = "[search_request fallback_env (JStr ''q'') (JInt 3)]"
  let ?s2 = "[search_request fallback_env (JStr ''q'') (JInt 3),
              fetch_contents_request fallback_env
                (JArr [JStr ''https://a.com'', JStr ''https://b.com'']) JNull]"
  have h1: "truthy (dict_get enrich_args ''query'' JNull)"
    by (simp add: sample_defs)
  have h2: "truthy (dict_get enrich_args ''include_text'' (JBool False))"
    by (simp add: sample_defs)
  have h3: "exa_web_search fallback_env (dict_get enrich_args ''query'' JNull)
              (dict_get enrich_args ''num_results'' (JInt 3)) [] = (Inr [stub_a, stub_b], ?s1)"
    by (simp add: exa_web_search_def io_simps fallback_env_def request_defs sample_defs
        slice_upto_def search_stub_def py_or_def)
  have h4: "exa_fetch_contents fallback_env
              (JArr (filter truthy (map (\<lambda>s. field s ''url'') [stub_a, stub_b]))) JNull ?s1
            = (Inl (Exc HTTPError ''Server error 500''), ?s2)"
    by (simp add: exa_fetch_contents_def io_simps fallback_env_def request_defs sample_defs
        endpoint_defs)
  from bulk_failure_falls_back_per_url [OF h1 h2 h3 h4] obtain out where
    en: "enrich fallback_env [stub_a, stub_b] ?s1
          = (Inr out, ?s2 @ map (\<lambda>s. fetch_content_request fallback_env (field s ''url''))
                              [stub_a, stub_b])"
    and len: "length out = length [stub_a, stub_b]"
    and nth: "\<forall>i<length [stub_a, stub_b].
               out ! i
                 = (case fst (exa_fetch_content fallback_env (field ([stub_a, stub_b] ! i) ''url'')
                               (?s2 @ map (\<lambda>s. fetch_content_request fallback_env (field s ''url''))
                                          (take i [stub_a, stub_b]))) of
                      Inr c \<Rightarrow> c
                    | Inl e' \<Rightarrow> [stub_a, stub_b] ! i)"
    by blast
  from len obtain x y where out: "out = [x, y]"
    by (cases out; cases "tl out") auto
  from nth have "out ! 0 = page_a"
    by (simp add: exa_fetch_content_def io_simps fallback_env_def request_defs sample_defs
        endpoint_defs first_result_def page_record_def)
  moreover from nth have "out ! 1 = stub_b"
    by (simp add: exa_fetch_content_def io_simps fallback_env_def request_defs sample_defs
        endpoint_defs first_result_def page_record_def)
  ultimately have "out = [page_a, stub_b]" using out by simp
  with en have "enrich fallback_env [stub_a, stub_b] ?s1
       = (Inr [page_a, stub_b],
          [search_request fallback_env (JStr ''q'') (JInt 3),
           fetch_contents_request fallback_env
             (JArr [JStr ''https://a.com'', JStr ''https://b.com'']) JNull,
           fetch_content_request fallback_env (JStr ''https://a.com''),
           fetch_content_request fallback_env (JStr ''https://b.com'')])"
    by (simp add: sample_defs)
  with h1 h2 h3 h4 show ?thesis
    by (simp add: sample_defs)
qed

section \<open>One text item for every call\<close>

text \<open>
  Claim C3. For every tool name and every argument bag, \<^verbatim>\<open>call_tool\<close> returns a list
  of exactly one text item, and no exception leaves it (the model's \<^verbatim>\<open>call_tool\<close>
  returns a list, never an exception: every exception of class \<^verbatim>\<open>Exception\<close> raised
  in the \<^verbatim>\<open>try\<close> block reaches the handler). When the body selected by the name
  (argument checks and upstream calls included) raises an exception \<^verbatim>\<open>e\<close>, the text is
  \<^verbatim>\<open>"Error: "\<close> followed by \<^verbatim>\<open>str(e)\<close>. The remaining conjuncts say so for the
  operation function of each of the eight tools, once the argument checks have passed.
\<close>

theorem call_tool_one_text_item:
  "length (fst (call_tool E name arguments sent)) = 1
   \<and> (fst (call_tool_body E name arguments sent) = Inl e
      \<longrightarrow> fst (call_tool E name arguments sent)
            = [TextContent ''text'' (''Error: '' @ str_exc e)])
   \<and> (truthy (dict_get args ''query'' JNull)
       \<and> fst (exa_web_search E (dict_get args ''query'' JNull)
                 (dict_get args ''num_results'' (JInt 3)) sent) = Inl e
      \<longrightarrow> fst (call_tool E ''exa_web_search'' (JObj args) sent)
            = [TextContent ''text'' (''Error: '' @ str_exc e)])
   \<and> (truthy (dict_get args ''url'' JNull)
       \<and> fst (exa_fetch_content E (dict_get args ''url'' JNull) sent) = Inl e
      \<longrightarrow> fst (call_tool E ''exa_fetch_content'' (JObj args) sent)
            = [TextContent ''text'' (''Error: '' @ str_exc e)])
   \<and> (truthy (dict_get args ''url'' JNull)
       \<and> fst (exa_find_similar_links E (dict_get args ''url'' JNull)
                 (dict_get args ''include_text'' (JBool False))
                 (dict_get args ''num_results'' (JInt 3)) sent) = Inl e
      \<longrightarrow> fst (call_tool E ''exa_find_similar_links'' (JObj args) sent)
            = [TextContent ''text'' (''Error: '' @ str_exc e)])
   \<and> (truthy (dict_get args ''urls'' JNull) \<and> isinstance_list (dict_get args ''urls'' JNull)
       \<and> fst (exa_fetch_contents E (dict_get args ''urls'' JNull)
                 (dict_get args ''livecrawl'' JNull) sent) = Inl e
      \<longrightarrow> fst (call_tool E ''exa_fetch_contents'' (JObj args) sent)
            = [TextContent ''text'' (''Error: '' @ str_exc e)])
   \<and> (truthy (dict_get args ''url'' JNull)
       \<and> (isinstance_list (dict_get args ''subpage_target'' JNull)
          \<or> \<not> truthy (dict_get args ''subpage_target'' JNull))
       \<and> fst (exa_fetch_subpages E (dict_get args ''url'' JNull)
                 (dict_get args ''subpages'' (JInt 5)) (dict_get args ''subpage_target'' JNull)
                 (dict_get args ''livecrawl'' JNull) sent) = Inl e
      \<longrightarrow> fst (call_tool E ''exa_fetch_subpages'' (JObj args) sent)
            = [TextContent ''text'' (''Error: '' @ str_exc e)])
   \<and> (truthy (dict_get args ''query'' JNull)
       \<and> fst (exa_answer_question E (dict_get args ''query'' JNull)
                 (dict_get args ''include_text'' (JBool False)) sent) = Inl e
      \<longrightarrow> fst (call_tool E ''exa_answer_question'' (JObj args) sent)
            = [TextContent ''text'' (''Error: '' @ str_exc e)])
   \<and> (truthy (dict_get args ''instructions'' JNull)
       \<and> fst (exa_research_start E (dict_get args ''instructions'' JNull)
                 (dict_get args ''model'' JNull) (dict_get args ''output_schema'' JNull) sent)
           = Inl e
      \<longrightarrow> fst (call_tool E ''exa_research_start'' (JObj args) sent)
            = [TextContent ''text'' (''Error: '' @ str_exc e)])
   \<and> (truthy (dict_get args ''task_id'' JNull)
       \<and> fst (exa_research_poll E (dict_get args ''task_id'' JNull) sent) = Inl e
      \<longrightarrow> fst (call_tool E ''exa_research_poll'' (JObj args) sent)
            = [TextContent ''text'' (''Error: '' @ str_exc e)])"
proof (intro conjI impI)
  show "length (fst (call_tool E name arguments sent)) = 1"
    by (simp add: call_tool_def respond_length)
next
  assume "fst (call_tool_body E name arguments sent) = Inl e"
  then show "fst (call_tool E name arguments sent)
            = [TextContent ''text'' (''Error: '' @ str_exc e)]"
    by (simp add: call_tool_def respond_raises)
next
  assume "truthy (dict_get args ''query'' JNull)
       \<and> fst (exa_web_search E (dict_get args ''query'' JNull)
                 (dict_get args ''num_results'' (JInt 3)) sent) = Inl e"
  then have "fst (call_tool_body E ''exa_web_search'' (JObj args) sent) = Inl e"
    by (auto simp: call_tool_body_def web_search_tool_def io_simps split: prod.splits sum.splits)
  then show "fst (call_tool E ''exa_web_search'' (JObj args) sent)
            = [TextContent ''text'' (''Error: '' @ str_exc e)]"
    by (simp add: call_tool_def respond_raises)
next
  assume "truthy (dict_get args ''url'' JNull)
       \<and> fst (exa_fetch_content E (dict_get args ''url'' JNull) sent) = Inl e"
  then have "fst (call_tool_body E ''exa_fetch_content'' (JObj args) sent) = Inl e"
    by (auto simp: call_tool_body_def fetch_content_tool_def io_simps
        split: prod.splits sum.splits)
  then show "fst (call_tool E ''exa_fetch_content'' (JObj args) sent)
            = [TextContent ''text'' (''Error: '' @ str_exc e)]"
    by (simp add: call_tool_def respond_raises)
next
  assume "truthy (dict_get args ''url'' JNull)
       \<and> fst (exa_find_similar_links E (dict_get args ''url'' JNull)
                 (dict_get args ''include_text'' (JBool False))
                 (dict_get args ''num_results'' (JInt 3)) sent) = Inl e"
  then have "fst (call_tool_body E ''exa_find_similar_links'' (JObj args) sent) = Inl e"
    by (auto simp: call_tool_body_def find_similar_links_tool_def io_simps
        split: prod.splits sum.splits)
  then show "fst (call_tool E ''exa_find_similar_links'' (JObj args) sent)
            = [TextContent ''text'' (''Error: '' @ str_exc e)]"
    by (simp add: call_tool_def respond_raises)
next
  assume "truthy (dict_get args ''urls'' JNull) \<and> isinstance_list (dict_get args ''urls'' JNull)
       \<and> fst (exa_fetch_contents E (dict_get args ''urls'' JNull)
                 (dict_get args ''livecrawl'' JNull) sent) = Inl e"
  then have "fst (call_tool_body E ''exa_fetch_contents'' (JObj args) sent) = Inl e"
    by (auto simp: call_tool_body_def fetch_contents_tool_def io_simps
        split: prod.splits sum.splits)
  then show "fst (call_tool E ''exa_fetch_contents'' (JObj args) sent)
            = [TextContent ''text'' (''Error: '' @ str_exc e)]"
    by (simp add: call_tool_def respond_raises)
next
  assume "truthy (dict_get args ''url'' JNull)
       \<and> (isinstance_list (dict_get args ''subpage_target'' JNull)
          \<or> \<not> truthy (dict_get args ''subpage_target'' JNull))
       \<and> fst (exa_fetch_subpages E (dict_get args ''url'' JNull)
                 (dict_get args ''subpages'' (JInt 5)) (dict_get args ''subpage_target'' JNull)
                 (dict_get args ''livecrawl'' JNull) sent) = Inl e"
  then have "fst (call_tool_body E ''exa_fetch_subpages'' (JObj args) sent) = Inl e"
    by (auto simp: call_tool_body_def fetch_subpages_tool_def io_simps
        split: prod.splits sum.splits)
  then show "fst (call_tool E ''exa_fetch_subpages'' (JObj args) sent)
            = [TextContent ''text'' (''Error: '' @ str_exc e)]"
    by (simp add: call_tool_def respond_raises)
next
  assume "truthy (dict_get args ''query'' JNull)
       \<and> fst (exa_answer_question E (dict_get args ''query'' JNull)
                 (dict_get args ''include_text'' (JBool False)) sent) = Inl e"
  then have "fst (call_tool_body E ''exa_answer_question'' (JObj args) sent) = Inl e"
    by (auto simp: call_tool_body_def answer_question_tool_def io_simps
        split: prod.splits sum.splits)
  then show "fst (call_tool E ''exa_answer_question'' (JObj args) sent)
            = [TextContent ''text'' (''Error: '' @ str_exc e)]"
    by (simp add: call_tool_def respond_raises)
next
  assume "truthy (dict_get args ''instructions'' JNull)
       \<and> fst (exa_research_start E (dict_get args ''instructions'' JNull)
                 (dict_get args ''model'' JNull) (dict_get args ''output_schema'' JNull) sent)
           = Inl e"
  then have "fst (call_tool_body E ''exa_research_start'' (JObj args) sent) = Inl e"
    by (auto simp: call_tool_body_def research_start_tool_def io_simps
        split: prod.splits sum.splits)
  then show "fst (call_tool E ''exa_research_start'' (JObj args) sent)
            = [TextContent ''text'' (''Error: '' @ str_exc e)]"
    by (simp add: call_tool_def respond_raises)
next
  assume "truthy (dict_get args ''task_id'' JNull)
       \<and> fst (exa_research_poll E (dict_get args ''task_id'' JNull) sent) = Inl e"
  then have "fst (call_tool_body E ''exa_research_poll'' (JObj args) sent) = Inl e"
    by (auto simp: call_tool_body_def research_poll_tool_def io_simps
        split: prod.splits sum.splits)
  then show "fst (call_tool E ''exa_research_poll'' (JObj args) sent)
            = [TextContent ''text'' (''Error: '' @ str_exc e)]"
    by (simp add: call_tool_def respond_raises)
qed

theorem call_tool_one_text_item_witness:
  "truthy (dict_get [(''url'', JStr ''https://x.com'')] ''url'' JNull)
   \<and> fst (exa_fetch_content offline_env (dict_get [(''url'', JStr ''https://x.com'')] ''url'' JNull) [])
       = Inl (Exc HTTPError ''All connection attempts failed'')
   \<and> fst (call_tool offline_env ''exa_fetch_content'' (JObj [(''url'', JStr ''https://x.com'')]) [])
       = [TextContent ''text'' ''Error: All connection attempts failed'']
   \<and> length (fst (call_tool offline_env ''exa_fetch_content'' (JObj [(''url'', JStr ''https://x.com'')]) [])) = 1"
proof -
  have t: "truthy (dict_get [(''url'', JStr ''https://x.com'')] ''url'' JNull)"
    by (simp add: dict_get_def)
  have r: "fst (exa_fetch_content offline_env (dict_get [(''url'', JStr ''https://x.com'')] ''url'' JNull) [])
       = Inl (Exc HTTPError ''All connection attempts failed'')"
    by (simp add: exa_fetch_content_def offline_env_def io_simps)
  from t r call_tool_one_text_item [of offline_env "''exa_fetch_content''"
      "JObj [(''url'', JStr ''https://x.com'')]" "[]" "Exc HTTPError ''All connection attempts failed''"
      "[(''url'', JStr ''https://x.com'')]"]
  show ?thesis by simp
qed

section \<open>The credential check\<close>

text \<open>
  Claim C4. Every operation function (search, fetch-one, fetch-many, fetch-subpages,
  find-similar, answer, research-start, research-poll), called with any arguments while
  the credential is the empty string, raises before it sends a request: the list of
  requests sent is unchanged. The exception is the same for all arguments, so no other
  check of the arguments comes before it (fetch-many with an empty list of urls
  included), and its message contains the name \<^verbatim>\<open>EXA_API_KEY\<close>.
\<close>

theorem credential_checked_first:
  assumes "EXA_API_KEY E = []"
  shows "exa_web_search E query num_results sent = (Inl credential_error, sent)
       \<and> exa_fetch_content E url sent = (Inl credential_error, sent)
       \<and> exa_fetch_contents E urls livecrawl sent = (Inl credential_error, sent)
       \<and> exa_fetch_subpages E url subpages subpage_target livecrawl sent
           = (Inl credential_error, sent)
       \<and> exa_find_similar_links E url include_text num_results sent
           = (Inl credential_error, sent)
       \<and> exa_answer_question E query include_text sent = (Inl credential_error, sent)
       \<and> exa_research_start E instructions model output_schema sent
           = (Inl credential_error, sent)
       \<and> exa_research_poll E task_id sent = (Inl credential_error, sent)
       \<and> sublist ''EXA_API_KEY'' (str_exc credential_error)"
proof -
  have "str_exc credential_error = [] @ ''EXA_API_KEY'' @ '' environment variable is not set''"
    by (simp add: credential_error_def)
  then have "sublist ''EXA_API_KEY'' (str_exc credential_error)"
    unfolding sublist_def by blast
  with assms show ?thesis
    by (simp add: exa_web_search_def exa_fetch_content_def exa_fetch_contents_def
        exa_fetch_subpages_def exa_find_similar_links_def exa_answer_question_def
        exa_research_start_def exa_research_poll_def raise_apply)
qed

theorem credential_checked_first_witness:
  "EXA_API_KEY (offline_env\<lparr>EXA_API_KEY := []\<rparr>) = []
   \<and> exa_fetch_contents (offline_env\<lparr>EXA_API_KEY := []\<rparr>) (JArr []) JNull []
       = (Inl credential_error, [])
   \<and> exa_web_search (offline_env\<lparr>EXA_API_KEY := []\<rparr>) (JStr ''q'') (JInt 3) []
       = (Inl credential_error, [])"
proof -
  have h: "EXA_API_KEY (offline_env\<lparr>EXA_API_KEY := []\<rparr>) = []" by simp
  show ?thesis
    using h credential_checked_first [OF h, of "JStr ''q''" "JInt 3" "[]" JNull "JArr []" JNull
        JNull JNull JNull JNull JNull JNull JNull]
    by simp
qed

section \<open>The search operation\<close>

text \<open>
  Claim C5, amended. For every \<^verbatim>\<open>num_results\<close> value \<^verbatim>\<open>k\<close> that is not negative and
  every upstream search reply whose results are a list of objects, the search operation
  returns the first \<^verbatim>\<open>min(k, n)\<close> of the \<^verbatim>\<open>n\<close> upstream items, in upstream order, each
  reshaped to the keys \<^verbatim>\<open>title\<close>, \<^verbatim>\<open>url\<close>, \<^verbatim>\<open>snippet\<close> in this order; the snippet is
  the item's \<^verbatim>\<open>text\<close> when that is truthy, else its \<^verbatim>\<open>summary\<close> when that is truthy,
  else the empty string. When the caller omits \<^verbatim>\<open>num_results\<close>, the dispatcher behaves
  as if 3 had been passed.
\<close>

theorem search_returns_first_results:
  "(EXA_API_KEY E \<noteq> [] \<and> 0 \<le> k
     \<and> http E sent (search_request E query (JInt k)) = Inr data
     \<and> py_get data ''results'' (JArr []) = Inr (JArr (map JObj ds))
    \<longrightarrow> exa_web_search E query (JInt k) sent
          = (Inr (map (\<lambda>d. JObj [(''title'', dict_get d ''title'' JNull),
                                  (''url'', dict_get d ''url'' JNull),
                                  (''snippet'',
                                     if truthy (dict_get d ''text'' JNull)
                                     then dict_get d ''text'' JNull
                                     else if truthy (dict_get d ''summary'' JNull)
                                          then dict_get d ''summary'' JNull
                                          else JStr [])])
                      (take (nat (min k (int (length ds)))) ds)),
             sent @ [search_request E query (JInt k)]))
   \<and> (map_of args ''num_results'' = None
    \<longrightarrow> call_tool E ''exa_web_search'' (JObj args) sent
          = call_tool E ''exa_web_search'' (JObj (args @ [(''num_results'', JInt 3)])) sent)"
proof (intro conjI impI)
  assume a: "EXA_API_KEY E \<noteq> [] \<and> 0 \<le> k
     \<and> http E sent (search_request E query (JInt k)) = Inr data
     \<and> py_get data ''results'' (JArr []) = Inr (JArr (map JObj ds))"
  then have "exa_web_search E query (JInt k) sent
      = (map_exc search_stub (map JObj (take (nat k) ds)), sent @ [search_request E query (JInt k)])"
    by (simp add: exa_web_search_def io_simps bindE_def slice_upto_nonneg take_map)
  then show "exa_web_search E query (JInt k) sent
          = (Inr (map (\<lambda>d. JObj [(''title'', dict_get d ''title'' JNull),
                                  (''url'', dict_get d ''url'' JNull),
                                  (''snippet'',
                                     if truthy (dict_get d ''text'' JNull)
                                     then dict_get d ''text'' JNull
                                     else if truthy (dict_get d ''summary'' JNull)
                                          then dict_get d ''summary'' JNull
                                          else JStr [])])
                      (take (nat (min k (int (length ds)))) ds)),
             sent @ [search_request E query (JInt k)])"
    by (simp only: map_exc_search_stub take_min_length)
next
  assume "map_of args ''num_results'' = None"
  then show "call_tool E ''exa_web_search'' (JObj args) sent
          = call_tool E ''exa_web_search'' (JObj (args @ [(''num_results'', JInt 3)])) sent"
    by (simp add: call_tool_def call_tool_body_def web_search_tool_def
        dict_get_append_other dict_get_append_absent dict_get_absent cong: if_cong)
qed

theorem search_returns_first_results_witness:
  "EXA_API_KEY mock_env \<noteq> [] \<and> (0::int) \<le> 2
   \<and> http mock_env [] (search_request mock_env (JStr ''hello'') (JInt 2))
       = Inr (JObj [(''results'', JArr (map JObj search_hits))])
   \<and> exa_web_search mock_env (JStr ''hello'') (JInt 2) []
       = (Inr [JObj [(''title'', JStr ''A''), (''url'', JStr ''https://a.com''),
                     (''snippet'', JStr ''alpha'')],
               JObj [(''title'', JStr ''B''), (''url'', JStr ''https://b.com''),
                     (''snippet'', JStr ''bravo'')]],
          [search_request mock_env (JStr ''hello'') (JInt 2)])
   \<and> map_of [(''query'', JStr ''hello'')] ''num_results'' = None
   \<and> call_tool mock_env ''exa_web_search'' (JObj [(''query'', JStr ''hello'')]) []
       = call_tool mock_env ''exa_web_search''
           (JObj [(''query'', JStr ''hello''), (''num_results'', JInt 3)]) []
   \<and> snd (call_tool mock_env ''exa_web_search'' (JObj [(''query'', JStr ''hello'')]) [])
       = [search_request mock_env (JStr ''hello'') (JInt 3)]"
proof -
  have h1: "EXA_API_KEY mock_env \<noteq> []" by (simp add: mock_env_def)
  have h2: "http mock_env [] (search_request mock_env (JStr ''hello'') (JInt 2))
       = Inr (JObj [(''results'', JArr (map JObj search_hits))])"
    by (simp add: mock_env_def search_request_def)
  have h3: "py_get (JObj [(''results'', JArr (map JObj search_hits))]) ''results'' (JArr [])
       = Inr (JArr (map JObj search_hits))"
    by (simp add: dict_get_def)
  have h4: "map_of [(''query'', JStr ''hello'')] ''num_results'' = None" by simp
  from search_returns_first_results [of mock_env 2 "[]" "JStr ''hello''"
      "JObj [(''results'', JArr (map JObj search_hits))]" search_hits "[(''query'', JStr ''hello'')]"]
    h1 h2 h3 h4
  have "exa_web_search mock_env (JStr ''hello'') (JInt 2) []
          = (Inr (map (\<lambda>d. JObj [(''title'', dict_get d ''title'' JNull),
                                  (''url'', dict_get d ''url'' JNull),
                                  (''snippet'',
                                     if truthy (dict_get d ''text'' JNull)
                                     then dict_get d ''text'' JNull
                                     else if truthy (dict_get d ''summary'' JNull)
                                          then dict_get d ''summary'' JNull
                                          else JStr [])])
                      (take (nat (min 2 (int (length search_hits)))) search_hits)),
             [] @ [search_request mock_env (JStr ''hello'') (JInt 2)])"
    and c: "call_tool mock_env ''exa_web_search'' (JObj [(''query'', JStr ''hello'')]) []
       = call_tool mock_env ''exa_web_search''
           (JObj ([(''query'', JStr ''hello'')] @ [(''num_results'', JInt 3)])) []"
    by simp_all
  then have "exa_web_search mock_env (JStr ''hello'') (JInt 2) []
       = (Inr [JObj [(''title'', JStr ''A''), (''url'', JStr ''https://a.com''),
                     (''snippet'', JStr ''alpha'')],
               JObj [(''title'', JStr ''B''), (''url'', JStr ''https://b.com''),
                     (''snippet'', JStr ''bravo'')]],
          [search_request mock_env (JStr ''hello'') (JInt 2)])"
    by (simp add: search_hits_def dict_get_def)
  moreover have "snd (call_tool mock_env ''exa_web_search''
                        (JObj [(''query'', JStr ''hello''), (''num_results'', JInt 3)]) [])
       = [search_request mock_env (JStr ''hello'') (JInt 3)]"
    by (simp add: call_tool_def call_tool_body_def web_search_tool_def respond_def io_simps
        exa_web_search_def mock_env_def dict_get_def split: sum.splits prod.splits)
  ultimately show ?thesis using h1 h2 h4 c by simp
qed

text \<open>
  The claim as stated, for every \<^verbatim>\<open>k\<close>, fails for a negative one: the code takes the
  slice \<^verbatim>\<open>[:k]\<close>, which for \<^verbatim>\<open>k = -1\<close> drops the last item. With two upstream items it
  returns one, where the first \<^verbatim>\<open>min(-1, 2)\<close> items are none.
\<close>

theorem negative_num_results_counterexample:
  "exa_web_search mock_env (JStr ''hello'') (JInt (- 1)) []
     = (Inr [JObj [(''title'', JStr ''A''), (''url'', JStr ''https://a.com''),
                   (''snippet'', JStr ''alpha'')]],
        [search_request mock_env (JStr ''hello'') (JInt (- 1))])
   \<and> length search_hits = 2
   \<and> take (nat (min (- 1) (int (length search_hits)))) search_hits = []"
  by (simp add: exa_web_search_def io_simps mock_env_def search_request_def dict_get_def
      bindE_def slice_upto_def search_hits_def search_stub_def)

section \<open>The find-similar operation\<close>

text \<open>
  Claim C6, amended. For every \<^verbatim>\<open>num_results\<close> value \<^verbatim>\<open>k\<close> that is not negative and
  every upstream findSimilar reply whose results are a list of objects, the operation
  returns the first \<^verbatim>\<open>k\<close> items (all of them when there are fewer), each reshaped to
  the keys \<^verbatim>\<open>title\<close>, \<^verbatim>\<open>url\<close>, \<^verbatim>\<open>score\<close>, \<^verbatim>\<open>text\<close>. When \<^verbatim>\<open>include_text\<close> is
  false the text is \<^verbatim>\<open>None\<close> whatever the upstream item contains; when it is true the
  text is the item's \<^verbatim>\<open>text\<close> if truthy, else its \<^verbatim>\<open>summary\<close> if truthy, else the empty
  string.
\<close>

theorem find_similar_returns_first_results:
  assumes "EXA_API_KEY E \<noteq> []" and "0 \<le> k"
    and "http E sent (find_similar_request E url include_text) = Inr data"
    and "py_get data ''results'' (JArr []) = Inr (JArr (map JObj ds))"
  shows "exa_find_similar_links E url include_text (JInt k) sent
          = (Inr (map (\<lambda>d. JObj [(''title'', dict_get d ''title'' JNull),
                                  (''url'', dict_get d ''url'' JNull),
                                  (''score'', dict_get d ''score'' JNull),
                                  (''text'',
                                     if truthy include_text
                                     then (if truthy (dict_get d ''text'' JNull)
                                           then dict_get d ''text'' JNull
                                           else if truthy (dict_get d ''summary'' JNull)
                                                then dict_get d ''summary'' JNull
                                                else JStr [])
                                     else JNull)])
                      (take (nat k) ds)),
             sent @ [find_similar_request E url include_text])"
proof -
  from assms have "exa_find_similar_links E url include_text (JInt k) sent
      = (map_exc (similar_link include_text) (map JObj (take (nat k) ds)),
         sent @ [find_similar_request E url include_text])"
    by (simp add: exa_find_similar_links_def io_simps bindE_def slice_upto_nonneg take_map)
  then show ?thesis
    by (simp only: map_exc_similar_link)
qed

theorem find_similar_returns_first_results_witness:
  "EXA_API_KEY mock_env \<noteq> [] \<and> (0::int) \<le> 2
   \<and> http mock_env [] (find_similar_request mock_env (JStr ''https://seed.com'') (JBool False))
       = Inr (JObj [(''results'', JArr (map JObj similar_hits))])
   \<and> fst (exa_find_similar_links mock_env (JStr ''https://seed.com'') (JBool False) (JInt 2) [])
       = Inr [JObj [(''title'', JStr ''Rel1''), (''url'', JStr ''https://r1.com''),
                    (''score'', JFloat (9 / 10)), (''text'', JNull)],
              JObj [(''title'', JStr ''Rel2''), (''url'', JStr ''https://r2.com''),
                    (''score'', JFloat (8 / 10)), (''text'', JNull)]]"
proof -
  have h1: "EXA_API_KEY mock_env \<noteq> []" by (simp add: mock_env_def)
  have h2: "(0::int) \<le> 2" by simp
  have h3: "http mock_env [] (find_similar_request mock_env (JStr ''https://seed.com'') (JBool False))
       = Inr (JObj [(''results'', JArr (map JObj similar_hits))])"
    by (simp add: mock_env_def find_similar_request_def EXA_SEARCH_ENDPOINT_def
        EXA_FIND_SIMILAR_ENDPOINT_def)
  have h4: "py_get (JObj [(''results'', JArr (map JObj similar_hits))]) ''results'' (JArr [])
       = Inr (JArr (map JObj similar_hits))"
    by (simp add: dict_get_def)
  from find_similar_returns_first_results [OF h1 h2 h3 h4]
  have "fst (exa_find_similar_links mock_env (JStr ''https://seed.com'') (JBool False) (JInt 2) [])
       = Inr [JObj [(''title'', JStr ''Rel1''), (''url'', JStr ''https://r1.com''),
                    (''score'', JFloat (9 / 10)), (''text'', JNull)],
              JObj [(''title'', JStr ''Rel2''), (''url'', JStr ''https://r2.com''),
                    (''score'', JFloat (8 / 10)), (''text'', JNull)]]"
    by (simp add: similar_hits_def dict_get_def)
  with h1 h3 show ?thesis by simp
qed

text \<open>
  As for the search operation, a negative \<^verbatim>\<open>num_results\<close> makes the slice drop items
  from the end: with \<^verbatim>\<open>-1\<close> and two upstream items the operation returns one item,
  which is not "the first -1 items".
\<close>

theorem negative_num_results_similar_counterexample:
  "exa_find_similar_links mock_env (JStr ''https://seed.com'') (JBool True) (JInt (- 1)) []
     = (Inr [JObj [(''title'', JStr ''Rel1''), (''url'', JStr ''https://r1.com''),
                   (''score'', JFloat (9 / 10)), (''text'', JStr ''S'')]],
        [find_similar_request mock_env (JStr ''https://seed.com'') (JBool True)])
   \<and> length similar_hits = 2
   \<and> take (nat (- 1)) similar_hits = []"
  by (simp add: exa_find_similar_links_def io_simps mock_env_def find_similar_request_def
      dict_get_def bindE_def slice_upto_def similar_hits_def similar_link_def py_or_def
      EXA_SEARCH_ENDPOINT_def EXA_FIND_SIMILAR_ENDPOINT_def)

section \<open>Empty replies of the contents endpoint\<close>

text \<open>
  Claim C7. When the contents endpoint answers with an empty list of results (or with no
  \<^verbatim>\<open>results\<close> key, for which the code substitutes the empty list), fetch-one and
  fetch-subpages both raise the "No content returned" exception, after the one request.
  The subscript \<^verbatim>\<open>results[0]\<close> is evaluated only for a truthy \<^verbatim>\<open>results\<close>, so neither
  operation raises an \<^verbatim>\<open>IndexError\<close> of its own: an \<^verbatim>\<open>IndexError\<close> that leaves the
  operation is one that the HTTP client raised.
\<close>

theorem empty_results_raise_no_content:
  assumes "EXA_API_KEY E \<noteq> []"
  shows "(http E sent (fetch_content_request E url) = Inr data
           \<and> py_get data ''results'' (JArr []) = Inr (JArr [])
          \<longrightarrow> exa_fetch_content E url sent
                = (Inl no_content_error, sent @ [fetch_content_request E url]))
       \<and> (http E sent (fetch_subpages_request E url subpages subpage_target livecrawl) = Inr data
           \<and> py_get data ''results'' (JArr []) = Inr (JArr [])
          \<longrightarrow> exa_fetch_subpages E url subpages subpage_target livecrawl sent
                = (Inl no_content_error,
                   sent @ [fetch_subpages_request E url subpages subpage_target livecrawl]))
       \<and> (fst (exa_fetch_content E url sent) = Inl e \<and> exc_kind e = IndexError
          \<longrightarrow> http E sent (fetch_content_request E url) = Inl e)
       \<and> (fst (exa_fetch_subpages E url subpages subpage_target livecrawl sent) = Inl e
           \<and> exc_kind e = IndexError
          \<longrightarrow> http E sent (fetch_subpages_request E url subpages subpage_target livecrawl)
                = Inl e)"
proof (intro conjI impI)
  assume "http E sent (fetch_content_request E url) = Inr data
          \<and> py_get data ''results'' (JArr []) = Inr (JArr [])"
  with assms show "exa_fetch_content E url sent
                = (Inl no_content_error, sent @ [fetch_content_request E url])"
    by (simp add: exa_fetch_content_def io_simps first_result_def bindE_def)
next
  assume "http E sent (fetch_subpages_request E url subpages subpage_target livecrawl) = Inr data
           \<and> py_get data ''results'' (JArr []) = Inr (JArr [])"
  with assms show "exa_fetch_subpages E url subpages subpage_target livecrawl sent
                = (Inl no_content_error,
                   sent @ [fetch_subpages_request E url subpages subpage_target livecrawl])"
    by (simp add: exa_fetch_subpages_def io_simps first_result_def bindE_def)
next
  assume a: "fst (exa_fetch_content E url sent) = Inl e \<and> exc_kind e = IndexError"
  show "http E sent (fetch_content_request E url) = Inl e"
  proof (cases "http E sent (fetch_content_request E url)")
    case (Inl e')
    with a assms show ?thesis by (simp add: exa_fetch_content_def io_simps)
  next
    case (Inr d)
    with a assms have "bindE (first_result d) page_record = Inl e"
      by (simp add: exa_fetch_content_def io_simps)
    with a show ?thesis
      by (auto simp: bindE_eq_Inl dest: first_result_error page_record_error)
  qed
next
  assume a: "fst (exa_fetch_subpages E url subpages subpage_target livecrawl sent) = Inl e
           \<and> exc_kind e = IndexError"
  show "http E sent (fetch_subpages_request E url subpages subpage_target livecrawl) = Inl e"
  proof (cases "http E sent (fetch_subpages_request E url subpages subpage_target livecrawl)")
    case (Inl e')
    with a assms show ?thesis by (simp add: exa_fetch_subpages_def io_simps)
  next
    case (Inr d)
    with a assms have "bindE (first_result d) subpage_bundle = Inl e"
      by (simp add: exa_fetch_subpages_def io_simps)
    with a show ?thesis
      by (auto simp: bindE_eq_Inl dest: first_result_error subpage_bundle_error)
  qed
qed

theorem empty_results_raise_no_content_witness:
  "EXA_API_KEY empty_results_env \<noteq> []
   \<and> http empty_results_env [] (fetch_content_request empty_results_env (JStr ''https://missing.com''))
       = Inr (JObj [(''results'', JArr [])])
   \<and> py_get (JObj [(''results'', JArr [])]) ''results'' (JArr []) = Inr (JArr [])
   \<and> fst (exa_fetch_content empty_results_env (JStr ''https://missing.com'') [])
       = Inl (Exc Exception ''No content returned from Exa for the given URL'')
   \<and> fst (exa_fetch_subpages empty_results_env (JStr ''https://root.com'') (JInt 5) JNull JNull [])
       = Inl (Exc Exception ''No content returned from Exa for the given URL'')"
proof -
  have k: "EXA_API_KEY empty_results_env \<noteq> []" by (simp add: empty_results_env_def)
  have h1: "http empty_results_env [] (fetch_content_request empty_results_env (JStr ''https://missing.com''))
       = Inr (JObj [(''results'', JArr [])])" by (simp add: empty_results_env_def)
  have h2: "http empty_results_env []
       (fetch_subpages_request empty_results_env (JStr ''https://root.com'') (JInt 5) JNull JNull)
       = Inr (JObj [(''results'', JArr [])])" by (simp add: empty_results_env_def)
  have g: "py_get (JObj [(''results'', JArr [])]) ''results'' (JArr []) = Inr (JArr [])"
    by (simp add: dict_get_def)
  from empty_results_raise_no_content [OF k, of "[]" "JStr ''https://missing.com''"
      "JObj [(''results'', JArr [])]"] h1 g
  have a: "fst (exa_fetch_content empty_results_env (JStr ''https://missing.com'') [])
       = Inl no_content_error" by simp
  from empty_results_raise_no_content [OF k, of "[]" "JStr ''https://root.com''"
      "JObj [(''results'', JArr [])]" "JInt 5" JNull JNull] h2 g
  have b: "fst (exa_fetch_subpages empty_results_env (JStr ''https://root.com'') (JInt 5) JNull JNull [])
       = Inl no_content_error" by simp
  from k h1 g a b show ?thesis by (simp add: no_content_error_def)
qed

section \<open>Unknown tool names\<close>

text \<open>
  Claim C8. For a name that is not in the catalog and any argument bag, \<^verbatim>\<open>call_tool\<close>
  returns a single text item whose text is \<^verbatim>\<open>Error: Unknown tool '<name>'\<close>; it sends
  no request. The answer is produced by the last branch of the chain, not by the
  exception handler.
\<close>

theorem unknown_tool_is_text_result:
  assumes "name \<notin> set tool_names"
  shows "call_tool E name arguments sent
           = ([TextContent ''text'' (''Error: Unknown tool '' @ [CHR 0x27] @ name @ [CHR 0x27])],
              sent)"
  using assms
  by (simp add: tool_names_def call_tool_def call_tool_body_def respond_def ret_apply
      unknown_tool_def quoted_def)

theorem unknown_tool_is_text_result_witness:
  "''nonexistent_tool'' \<notin> set tool_names
   \<and> call_tool offline_env ''nonexistent_tool'' (JObj []) []
       = ([TextContent ''text'' (''Error: Unknown tool 'nonexistent_tool'' @ [CHR 0x27])], [])"
proof -
  have h: "''nonexistent_tool'' \<notin> set tool_names" by (simp add: tool_names_def)
  show ?thesis
    using h unknown_tool_is_text_result [OF h, of offline_env "JObj []" "[]"] by simp
qed

section \<open>The check of \<^verbatim>\<open>subpage_target\<close>\<close>

text \<open>
  Claim C9, amended. The dispatcher rejects a \<^verbatim>\<open>subpage_target\<close> that is not a list only
  when it is truthy: \<^verbatim>\<open>if subpage_target and not isinstance(subpage_target, list)\<close>.
  For a call of the fetch-subpages tool with a truthy \<^verbatim>\<open>url\<close> and a truthy
  \<^verbatim>\<open>subpage_target\<close> that is not a list (a non-empty string, a non-zero number,
  \<^verbatim>\<open>true\<close> or a non-empty object), the result is the one text item naming
  \<^verbatim>\<open>subpage_target\<close> and no request is sent.
\<close>

theorem subpage_target_must_be_list:
  assumes "truthy (dict_get args ''url'' JNull)"
    and "truthy (dict_get args ''subpage_target'' JNull)"
    and "\<not> isinstance_list (dict_get args ''subpage_target'' JNull)"
  shows "call_tool E ''exa_fetch_subpages'' (JObj args) sent
           = ([TextContent ''text''
                ''Error: Argument 'subpage_target' must be an array of strings if provided''],
              sent)
       \<and> sublist ''subpage_target''
            (content_text (hd (fst (call_tool E ''exa_fetch_subpages'' (JObj args) sent))))"
proof -
  have a: "call_tool E ''exa_fetch_subpages'' (JObj args) sent
           = ([TextContent ''text''
                ''Error: Argument 'subpage_target' must be an array of strings if provided''],
              sent)"
    using assms
    by (simp add: call_tool_def call_tool_body_def fetch_subpages_tool_def respond_def io_simps
        subpage_target_error_def)
  have "''Error: Argument 'subpage_target' must be an array of strings if provided''
         = (''Error: Argument '' @ [CHR 0x27]) @ ''subpage_target''
            @ (CHR 0x27 # '' must be an array of strings if provided'')"
    by simp
  then have "sublist ''subpage_target''
          ''Error: Argument 'subpage_target' must be an array of strings if provided''"
    unfolding sublist_def by blast
  with a show ?thesis by simp
qed

theorem subpage_target_must_be_list_witness:
  "truthy (dict_get [(''url'', JStr ''https://example.com''), (''subpage_target'', JStr ''not-a-list'')] ''url'' JNull)
   \<and> truthy (dict_get [(''url'', JStr ''https://example.com''), (''subpage_target'', JStr ''not-a-list'')] ''subpage_target'' JNull)
   \<and> \<not> isinstance_list (dict_get [(''url'', JStr ''https://example.com''), (''subpage_target'', JStr ''not-a-list'')] ''subpage_target'' JNull)
   \<and> call_tool offline_env ''exa_fetch_subpages''
        (JObj [(''url'', JStr ''https://example.com''), (''subpage_target'', JStr ''not-a-list'')]) []
      = ([TextContent ''text''
            ''Error: Argument 'subpage_target' must be an array of strings if provided''], [])"
proof -
  let ?args = "[(''url'', JStr ''https://example.com''), (''subpage_target'', JStr ''not-a-list'')]"
  have h1: "truthy (dict_get ?args ''url'' JNull)" by (simp add: dict_get_def)
  have h2: "truthy (dict_get ?args ''subpage_target'' JNull)" by (simp add: dict_get_def)
  have h3: "\<not> isinstance_list (dict_get ?args ''subpage_target'' JNull)" by (simp add: dict_get_def)
  from subpage_target_must_be_list [OF h1 h2 h3, of offline_env "[]"] h1 h2 h3
  show ?thesis by simp
qed

text \<open>
  The claim as stated fails for a falsy value that is not a list: with the empty string
  as \<^verbatim>\<open>subpage_target\<close> the check passes, the request is sent, and the text is the
  outcome of the request.
\<close>

theorem empty_subpage_target_counterexample:
  "\<not> isinstance_list (JStr [])
   \<and> call_tool offline_env ''exa_fetch_subpages''
        (JObj [(''url'', JStr ''https://example.com''), (''subpage_target'', JStr [])]) []
      = ([TextContent ''text'' ''Error: All connection attempts failed''],
         [fetch_subpages_request offline_env (JStr ''https://example.com'') (JInt 5) (JStr []) JNull])"
  by (simp add: call_tool_def call_tool_body_def fetch_subpages_tool_def respond_def io_simps
      dict_get_def exa_fetch_subpages_def offline_env_def)

section \<open>The two dispatchers\<close>

text \<open>
  Claim C10 says that the dispatcher registered by \<^verbatim>\<open>build_mcp_server\<close> and the one
  defined in \<^verbatim>\<open>main\<close> return the same text for every call. They do not: called for
  \<^verbatim>\<open>exa_fetch_contents\<close> without \<^verbatim>\<open>urls\<close>, the first answers with an ASCII hyphen in
  \<^verbatim>\<open>non-empty\<close> and the second with the three bytes of U+2011.
\<close>

theorem dispatchers_differ_on_empty_urls:
  "fst (call_tool offline_env ''exa_fetch_contents'' (JObj []) [])
     = [TextContent ''text'' ''Error: Argument 'urls' must be a non-empty list'']
   \<and> fst (main_call_tool offline_env ''exa_fetch_contents'' (JObj []) [])
     = [TextContent ''text'' (''Error: Argument 'urls' must be a non''
          @ [CHR 0xE2, CHR 0x80, CHR 0x91] @ ''empty list'')]
   \<and> call_tool offline_env ''exa_fetch_contents'' (JObj []) []
     \<noteq> main_call_tool offline_env ''exa_fetch_contents'' (JObj []) []"
  by (simp add: call_tool_def main_call_tool_def call_tool_body_def main_call_tool_body_def
      fetch_contents_tool_def respond_def io_simps urls_message_def main_urls_message_def
      dict_get_def)

text \<open>
  The message of that one check is the only difference: for every other tool name, and
  for \<^verbatim>\<open>exa_fetch_contents\<close> whenever the check of \<^verbatim>\<open>urls\<close> passes or the argument bag
  is not a dict, the two dispatchers return the same result and send the same requests.
\<close>

lemma dispatchers_agree_on_other_tools:
  "name \<noteq> ''exa_fetch_contents'' \<Longrightarrow>
   main_call_tool E name arguments sent = call_tool E name arguments sent"
  by (simp add: call_tool_def main_call_tool_def call_tool_body_def main_call_tool_body_def)

lemma fetch_contents_tool_message:
  assumes "\<forall>urls. py_get arguments ''urls'' JNull = Inr urls
             \<longrightarrow> truthy urls \<and> isinstance_list urls"
  shows "fetch_contents_tool m E arguments sent = fetch_contents_tool m' E arguments sent"
proof (cases "py_get arguments ''urls'' JNull")
  case (Inl e)
  then show ?thesis by (simp add: fetch_contents_tool_def io_simps)
next
  case (Inr urls)
  with assms have "truthy urls \<and> isinstance_list urls" by blast
  with Inr show ?thesis by (simp add: fetch_contents_tool_def io_simps)
qed

lemma dispatchers_agree_on_checked_urls:
  assumes "\<forall>urls. py_get arguments ''urls'' JNull = Inr urls
             \<longrightarrow> truthy urls \<and> isinstance_list urls"
  shows "main_call_tool E ''exa_fetch_contents'' arguments sent
         = call_tool E ''exa_fetch_contents'' arguments sent"
  using fetch_contents_tool_message [OF assms, where m = main_urls_message and m' = urls_message]
  by (simp add: call_tool_def main_call_tool_def call_tool_body_def main_call_tool_body_def
      respond_def)

end
